theory Spec2Isabelle
  imports Main "HOL-Library.Word" "HOL-Library.Sublist"
begin

section \<open>Python values used by the script\<close>

text \<open>
  The script \<^verbatim>\<open>fetch_dataPdf.py\<close> is a Streamlit page that hands an uploaded PDF to
  PyMuPDF (\<^verbatim>\<open>fitz\<close>), PIL, pandas and the Cohere client. The libraries are not part of
  the repository: they are parameters of the model, and every call into them either returns
  a value or raises. A raised exception is a value \<open>Inl e\<close>; \<open>exc_str e\<close> is what
  \<^verbatim>\<open>f"{e}"\<close> prints. The exceptions of the model are the instances of Python's class
  \<^verbatim>\<open>Exception\<close>, the class every handler of the script names.
\<close>

type_synonym byte = "8 word"
type_synonym bytes = "byte list"

datatype pyexc = PyExc (exc_class: string) (exc_str: string)

text \<open>\<^verbatim>\<open>range(n)\<close> is empty for \<open>n \<le> 0\<close>, as the interval \<open>[0..n - 1]\<close> is.\<close>

definition py_range :: "int \<Rightarrow> int list" where
  "py_range n = [0..n - 1]"

text \<open>\<^verbatim>\<open>enumerate(xs)\<close> pairs each element with its position, counted from 0.\<close>

definition enumerate_py :: "'a list \<Rightarrow> (int \<times> 'a) list" where
  "enumerate_py xs = zip (py_range (int (length xs))) xs"

text \<open>\<^verbatim>\<open>str(n)\<close> of an integer, the decimal numeral an f-string inserts.\<close>

fun str_nat :: "nat \<Rightarrow> string" where
  "str_nat n = (if n < 10 then [''0123456789'' ! n]
                else str_nat (n div 10) @ [''0123456789'' ! (n mod 10)])"

definition str_int :: "int \<Rightarrow> string" where
  "str_int i = (if i < 0 then ''-'' @ str_nat (nat (- i)) else str_nat (nat i))"

text \<open>
  \<^verbatim>\<open>str.isspace\<close> on the code points below 256, and \<^verbatim>\<open>str.strip()\<close>, which removes
  the white space at both ends.
\<close>

definition isspace :: "char \<Rightarrow> bool" where
  "isspace c = (let n = (of_char c :: nat) in
      (9 \<le> n \<and> n \<le> 13) \<or> (28 \<le> n \<and> n \<le> 32) \<or> n = 133 \<or> n = 160)"

definition strip :: "string \<Rightarrow> string" where
  "strip s = rev (dropWhile isspace (rev (dropWhile isspace s)))"

text \<open>\<^verbatim>\<open>t[0]\<close> on a tuple and \<^verbatim>\<open>d[k]\<close> on a dict raise when the entry is missing.\<close>

definition tuple_first :: "'a list \<Rightarrow> pyexc + 'a" where
  "tuple_first t = (case t of [] \<Rightarrow> Inl (PyExc ''IndexError'' ''tuple index out of range'')
                    | x # _ \<Rightarrow> Inr x)"

definition dict_getitem :: "(string \<rightharpoonup> 'v) \<Rightarrow> string \<Rightarrow> pyexc + 'v" where
  "dict_getitem d k = (case d k of None \<Rightarrow> Inl (PyExc ''KeyError'' ([CHR 0x27] @ k @ [CHR 0x27]))
                       | Some v \<Rightarrow> Inr v)"

text \<open>\<^verbatim>\<open>s.encode('utf-8')\<close> on code points below 256: one byte below 128, two above.\<close>

definition utf8_char :: "char \<Rightarrow> bytes" where
  "utf8_char c = (let n = (of_char c :: nat) in
      if n < 128 then [of_nat n] else [of_nat (192 + n div 64), of_nat (128 + n mod 64)])"

definition encode_utf8 :: "string \<Rightarrow> bytes" where
  "encode_utf8 s = concat (map utf8_char s)"

section \<open>The uploaded file\<close>

text \<open>
  Streamlit's uploaded file is an in-memory byte stream with a read cursor.
  \<^verbatim>\<open>read()\<close> returns the bytes from the cursor to the end and leaves the cursor at the end;
  \<^verbatim>\<open>seek(n)\<close> moves the cursor.
\<close>

record uploaded_file =
  name :: string
  ftype :: string
  content :: bytes
  pos :: nat

definition file_read :: "uploaded_file \<Rightarrow> bytes \<times> uploaded_file" where
  "file_read f = (drop (pos f) (content f), f\<lparr>pos := max (pos f) (length (content f))\<rparr>)"

definition file_seek :: "uploaded_file \<Rightarrow> nat \<Rightarrow> uploaded_file" where
  "file_seek f n = f\<lparr>pos := n\<rparr>"

section \<open>The libraries\<close>

text \<open>
  What the script reads of a PyMuPDF document. A method the script calls once per object
  (\<^verbatim>\<open>page.get_text()\<close>, \<^verbatim>\<open>page.get_images(full=True)\<close>, \<^verbatim>\<open>page.find_tables()\<close>) is a
  field holding the call's outcome; \<open>getitem\<close> is \<^verbatim>\<open>pdf_document[page_num]\<close>;
  \<open>cell_text t r c\<close> is \<^verbatim>\<open>t.cell(r, c).text\<close>, a string or \<^verbatim>\<open>None\<close>. An entry of
  \<^verbatim>\<open>get_images\<close> is a tuple, of which the script reads the first component (the xref); the
  dict of \<^verbatim>\<open>extract_image\<close> is modelled on its byte-valued entries.
\<close>

record fitz_table =
  rows :: int
  cols :: int
  cell_text :: "int \<Rightarrow> int \<Rightarrow> pyexc + string option"

record table_finder =
  tables :: "fitz_table list"

record fitz_page =
  get_text :: "pyexc + string"
  get_images :: "pyexc + int list list"
  find_tables :: "pyexc + table_finder"

record fitz_document =
  page_count :: int
  getitem :: "int \<Rightarrow> pyexc + fitz_page"
  extract_image :: "int \<Rightarrow> pyexc + (string \<rightharpoonup> bytes)"

text \<open>
  A pandas dataframe built from a list of rows and a list of column labels. The labels are
  Python objects like the cells (strings or \<^verbatim>\<open>None\<close>): the header branch passes the
  first row of cells as the labels.
\<close>

record dataframe =
  columns :: "string option list"
  data :: "string option list list"

definition pd_DataFrame :: "string option list list \<Rightarrow> string option list \<Rightarrow> dataframe" where
  "pd_DataFrame rows_data cols_names = \<lparr>columns = cols_names, data = rows_data\<rparr>"

text \<open>
  The other libraries: \<open>Image_open b\<close> is \<^verbatim>\<open>Image.open(io.BytesIO(b))\<close>,
  \<open>Image_save_png img\<close> the bytes \<^verbatim>\<open>img.save(buf, format="PNG")\<close> leaves in the
  buffer, \<open>to_csv index df\<close> is \<^verbatim>\<open>df.to_csv(index=index)\<close>, \<open>cohere_Client\<close> is
  \<^verbatim>\<open>cohere.Client(api_key)\<close> and \<open>co_summarize co r\<close> is the \<^verbatim>\<open>summary\<close> of the
  response of \<^verbatim>\<open>co.summarize\<close> called with the keyword arguments \<open>r\<close>.
\<close>

datatype cohere_client = CohereClient (client_key: string)

record summarize_request =
  req_text :: string
  req_length :: string
  req_format :: string
  req_model :: string
  additional_command :: string

record 'img libraries =
  fitz_open :: "bytes \<Rightarrow> pyexc + fitz_document"
  Image_open :: "bytes \<Rightarrow> pyexc + 'img"
  Image_save_png :: "'img \<Rightarrow> pyexc + bytes"
  to_csv :: "bool \<Rightarrow> dataframe \<Rightarrow> pyexc + string"
  cohere_Client :: "string \<Rightarrow> pyexc + cohere_client"
  co_summarize :: "cohere_client \<Rightarrow> summarize_request \<Rightarrow> pyexc + string"

section \<open>Observable effects\<close>

text \<open>
  A run of the page is observed through the calls it makes to Streamlit, to the uploaded
  file and to the Cohere client, in order. The page title (which carries an emoji) and the
  file-size entry of the details (a float rendered in KB) are recorded without their text.
\<close>

datatype payload = Str string | Bytes bytes

datatype 'img event =
    St_title
  | St_write string
  | St_sidebar_title string
  | St_sidebar_text_input string
  | St_file_uploader string
  | St_write_details string string nat
  | St_tabs "string list"
  | St_header string
  | St_text_area string string
  | St_download_button string payload string "string option"
  | St_columns nat
  | St_image int 'img string
  | St_info string
  | St_subheader string
  | St_dataframe dataframe
  | St_spinner string
  | St_error string
  | File_read bytes
  | File_seek nat
  | Cohere_Client string
  | Co_summarize summarize_request

text \<open>
  A function of the script returns its Python result, or \<open>Inl e\<close> when the exception
  \<open>e\<close> leaves it, together with the uploaded file after the call and the effects it made.
\<close>

type_synonym ('a, 'img) outcome = "(pyexc + 'a) \<times> uploaded_file \<times> 'img event list"

abbreviation returned :: "('a, 'img) outcome \<Rightarrow> pyexc + 'a" where
  "returned out \<equiv> fst out"

abbreviation effects :: "('a, 'img) outcome \<Rightarrow> 'img event list" where
  "effects out \<equiv> snd (snd out)"

section \<open>Text extraction\<close>

text \<open>The page loop of \<^verbatim>\<open>extract_text_from_pdf\<close>; \<open>text\<close> is the string built so far.\<close>

fun text_pages :: "fitz_document \<Rightarrow> int list \<Rightarrow> string \<Rightarrow> pyexc + string" where
  "text_pages pdf_document [] text = Inr text"
| "text_pages pdf_document (page_num # rest) text =
     (case getitem pdf_document page_num of
        Inl e \<Rightarrow> Inl e
      | Inr pg \<Rightarrow>
          (case get_text pg of
             Inl e \<Rightarrow> Inl e
           | Inr t \<Rightarrow> text_pages pdf_document rest (text @ t)))"

text \<open>The body of the \<^verbatim>\<open>try\<close>, after \<^verbatim>\<open>pdf_file.read()\<close> has produced the stream.\<close>

definition text_try :: "'img libraries \<Rightarrow> bytes \<Rightarrow> pyexc + string" where
  "text_try lib stream =
     (case fitz_open lib stream of
        Inl e \<Rightarrow> Inl e
      | Inr pdf_document \<Rightarrow>
          text_pages pdf_document (py_range (page_count pdf_document)) [])"

definition extract_text_from_pdf ::
    "'img libraries \<Rightarrow> uploaded_file \<Rightarrow> (string option, 'img) outcome" where
  "extract_text_from_pdf lib pdf_file =
     (let (stream, pdf_file') = file_read pdf_file in
      case text_try lib stream of
        Inr text \<Rightarrow> (Inr (Some text), pdf_file', [File_read stream])
      | Inl e \<Rightarrow>
          (Inr None, pdf_file',
           [File_read stream, St_error (''Error extracting text: '' @ exc_str e)]))"

section \<open>Image extraction\<close>

text \<open>
  The inner loop of \<^verbatim>\<open>extract_images_from_pdf\<close> over \<^verbatim>\<open>enumerate(image_list)\<close>;
  \<open>images\<close> is the list built so far.
\<close>

fun images_of_page ::
    "'img libraries \<Rightarrow> fitz_document \<Rightarrow> int \<Rightarrow> (int \<times> int list) list \<Rightarrow>
     (string \<times> 'img) list \<Rightarrow> pyexc + (string \<times> 'img) list" where
  "images_of_page lib pdf_document page_num [] images = Inr images"
| "images_of_page lib pdf_document page_num ((img_index, img) # rest) images =
     (case tuple_first img of
        Inl e \<Rightarrow> Inl e
      | Inr xref \<Rightarrow>
          (case extract_image pdf_document xref of
             Inl e \<Rightarrow> Inl e
           | Inr base_image \<Rightarrow>
               (case dict_getitem base_image ''image'' of
                  Inl e \<Rightarrow> Inl e
                | Inr image_bytes \<Rightarrow>
                    (case Image_open lib image_bytes of
                       Inl e \<Rightarrow> Inl e
                     | Inr pil_image \<Rightarrow>
                         images_of_page lib pdf_document page_num rest
                           (images @
                            [(''Page '' @ str_int (page_num + 1) @ '', Image '' @
                                str_int (img_index + 1), pil_image)])))))"

fun images_pages ::
    "'img libraries \<Rightarrow> fitz_document \<Rightarrow> int list \<Rightarrow> (string \<times> 'img) list \<Rightarrow>
     pyexc + (string \<times> 'img) list" where
  "images_pages lib pdf_document [] images = Inr images"
| "images_pages lib pdf_document (page_num # rest) images =
     (case getitem pdf_document page_num of
        Inl e \<Rightarrow> Inl e
      | Inr pg \<Rightarrow>
          (case get_images pg of
             Inl e \<Rightarrow> Inl e
           | Inr image_list \<Rightarrow>
               (case images_of_page lib pdf_document page_num (enumerate_py image_list) images of
                  Inl e \<Rightarrow> Inl e
                | Inr images' \<Rightarrow> images_pages lib pdf_document rest images')))"

definition images_try :: "'img libraries \<Rightarrow> bytes \<Rightarrow> pyexc + (string \<times> 'img) list" where
  "images_try lib stream =
     (case fitz_open lib stream of
        Inl e \<Rightarrow> Inl e
      | Inr pdf_document \<Rightarrow>
          images_pages lib pdf_document (py_range (page_count pdf_document)) [])"

definition extract_images_from_pdf ::
    "'img libraries \<Rightarrow> uploaded_file \<Rightarrow> ((string \<times> 'img) list, 'img) outcome" where
  "extract_images_from_pdf lib pdf_file =
     (let (stream, pdf_file') = file_read pdf_file in
      case images_try lib stream of
        Inr images \<Rightarrow> (Inr images, pdf_file', [File_read stream])
      | Inl e \<Rightarrow>
          (Inr [], pdf_file',
           [File_read stream, St_error (''Error extracting images: '' @ exc_str e)]))"

section \<open>Table extraction\<close>

text \<open>
  The two cell loops of \<^verbatim>\<open>extract_tables_from_pdf_pymupdf\<close>: \<open>row_cells\<close> builds
  \<^verbatim>\<open>row_data\<close> for one row, \<open>table_rows\<close> builds \<^verbatim>\<open>rows_data\<close>.
\<close>

fun row_cells ::
    "fitz_table \<Rightarrow> int \<Rightarrow> int list \<Rightarrow> string option list \<Rightarrow> pyexc + string option list" where
  "row_cells table row [] row_data = Inr row_data"
| "row_cells table row (col # rest) row_data =
     (case cell_text table row col of
        Inl e \<Rightarrow> Inl e
      | Inr t \<Rightarrow> row_cells table row rest (row_data @ [t]))"

fun table_rows ::
    "fitz_table \<Rightarrow> int list \<Rightarrow> string option list list \<Rightarrow> pyexc + string option list list" where
  "table_rows table [] rows_data = Inr rows_data"
| "table_rows table (row # rest) rows_data =
     (case row_cells table row (py_range (cols table)) [] of
        Inl e \<Rightarrow> Inl e
      | Inr row_data \<Rightarrow> table_rows table rest (rows_data @ [row_data]))"

text \<open>
  The truth value of \<^verbatim>\<open>cell and cell.strip()\<close>: \<^verbatim>\<open>None\<close> and the empty string are
  false, any other string is as true as its stripped form.
\<close>

definition truthy_cell :: "string option \<Rightarrow> bool" where
  "truthy_cell cell = (case cell of None \<Rightarrow> False | Some s \<Rightarrow> s \<noteq> [] \<and> strip s \<noteq> [])"

text \<open>\<^verbatim>\<open>[f"Column {i+1}" for i in range(len(rows_data[0]))]\<close>\<close>

definition generic_columns :: "string option list \<Rightarrow> string option list" where
  "generic_columns first_row =
     map (\<lambda>i. Some (''Column '' @ str_int (i + 1))) (py_range (int (length first_row)))"

text \<open>
  The dataframe of one table: \<open>None\<close> when \<^verbatim>\<open>len(rows_data) > 0\<close> fails, in which
  case the script appends nothing.
\<close>

definition table_dataframe :: "string option list list \<Rightarrow> dataframe option" where
  "table_dataframe rows_data =
     (case rows_data of
        [] \<Rightarrow> None
      | first_row # others \<Rightarrow>
          if list_all truthy_cell first_row
          then Some (pd_DataFrame others first_row)
          else Some (pd_DataFrame rows_data (generic_columns first_row)))"

record table_info =
  page :: int
  table_number :: int
  dataframe :: dataframe

fun tables_of_page ::
    "int \<Rightarrow> (int \<times> fitz_table) list \<Rightarrow> table_info list \<Rightarrow> pyexc + table_info list" where
  "tables_of_page page_num [] found = Inr found"
| "tables_of_page page_num ((i, table) # rest) found =
     (case table_rows table (py_range (rows table)) [] of
        Inl e \<Rightarrow> Inl e
      | Inr rows_data \<Rightarrow>
          (case table_dataframe rows_data of
             None \<Rightarrow> tables_of_page page_num rest found
           | Some df \<Rightarrow>
               tables_of_page page_num rest
                 (found @ [\<lparr>page = page_num + 1, table_number = i + 1, dataframe = df\<rparr>])))"

fun tables_pages ::
    "fitz_document \<Rightarrow> int list \<Rightarrow> table_info list \<Rightarrow> pyexc + table_info list" where
  "tables_pages pdf_document [] found = Inr found"
| "tables_pages pdf_document (page_num # rest) found =
     (case getitem pdf_document page_num of
        Inl e \<Rightarrow> Inl e
      | Inr pg \<Rightarrow>
          (case find_tables pg of
             Inl e \<Rightarrow> Inl e
           | Inr tabs \<Rightarrow>
               (case tables_of_page page_num (enumerate_py (tables tabs)) found of
                  Inl e \<Rightarrow> Inl e
                | Inr found' \<Rightarrow> tables_pages pdf_document rest found')))"

definition tables_try :: "'img libraries \<Rightarrow> bytes \<Rightarrow> pyexc + table_info list" where
  "tables_try lib stream =
     (case fitz_open lib stream of
        Inl e \<Rightarrow> Inl e
      | Inr pdf_document \<Rightarrow>
          tables_pages pdf_document (py_range (page_count pdf_document)) [])"

definition extract_tables_from_pdf_pymupdf ::
    "'img libraries \<Rightarrow> uploaded_file \<Rightarrow> (table_info list, 'img) outcome" where
  "extract_tables_from_pdf_pymupdf lib pdf_file =
     (let (stream, pdf_file') = file_read pdf_file in
      case tables_try lib stream of
        Inr found \<Rightarrow> (Inr found, pdf_file', [File_read stream])
      | Inl e \<Rightarrow>
          (Inr [], pdf_file',
           [File_read stream,
            St_error (''Error extracting tables with PyMuPDF: '' @ exc_str e)]))"

section \<open>Summarization\<close>

definition summary_request :: "string \<Rightarrow> summarize_request" where
  "summary_request text =
     \<lparr>req_text = text, req_length = ''medium'', req_format = ''paragraph'',
      req_model = ''command'',
      additional_command = ''Make it comprehensive and highlight key points''\<rparr>"

text \<open>The body of the \<^verbatim>\<open>try\<close> of \<^verbatim>\<open>get_cohere_summary\<close>, with the calls it makes.\<close>

definition summary_try ::
    "'img libraries \<Rightarrow> string \<Rightarrow> string \<Rightarrow> (pyexc + string) \<times> 'img event list" where
  "summary_try lib text api_key =
     (case cohere_Client lib api_key of
        Inl e \<Rightarrow> (Inl e, [Cohere_Client api_key])
      | Inr co \<Rightarrow>
          (co_summarize lib co (summary_request text),
           [Cohere_Client api_key, Co_summarize (summary_request text)]))"

definition get_cohere_summary ::
    "'img libraries \<Rightarrow> string \<Rightarrow> string \<Rightarrow> (pyexc + string option) \<times> 'img event list" where
  "get_cohere_summary lib text api_key =
     (case summary_try lib text api_key of
        (Inr summary, evs) \<Rightarrow> (Inr (Some summary), evs)
      | (Inl e, evs) \<Rightarrow>
          (Inr None, evs @ [St_error (''Error with Cohere API: '' @ exc_str e)]))"

section \<open>The page\<close>

text \<open>
  \<^verbatim>\<open>main\<close> renders four tabs in order. Each \<^verbatim>\<open>with tab:\<close> block is a function of the
  uploaded file; an exception that leaves a block leaves \<^verbatim>\<open>main\<close>, and the later blocks
  do not run. The calls \<^verbatim>\<open>img.save\<close> and \<^verbatim>\<open>df.to_csv\<close> are made outside any handler.
\<close>

definition tab1 :: "'img libraries \<Rightarrow> uploaded_file \<Rightarrow> (unit, 'img) outcome" where
  "tab1 lib uploaded =
     (case extract_text_from_pdf lib uploaded of
        (Inl e, f, evs) \<Rightarrow> (Inl e, f, [St_header ''Extracted Text''] @ evs)
      | (Inr text, f, evs) \<Rightarrow>
          (Inr (), f,
           [St_header ''Extracted Text''] @ evs @
           (case text of
              None \<Rightarrow> []
            | Some t \<Rightarrow>
                if t \<noteq> []
                then [St_text_area ''Text Content'' t,
                      St_download_button ''Download Text'' (Str t)
                        (name uploaded @ ''_text.txt'') None]
                else [])))"

text \<open>The loop over \<^verbatim>\<open>enumerate(images)\<close> that fills the three columns.\<close>

fun show_images ::
    "'img libraries \<Rightarrow> string \<Rightarrow> (int \<times> string \<times> 'img) list \<Rightarrow>
     (pyexc + unit) \<times> 'img event list" where
  "show_images lib file_name [] = (Inr (), [])"
| "show_images lib file_name ((i, img_name, img) # rest) =
     (case Image_save_png lib img of
        Inl e \<Rightarrow> (Inl e, [St_image (i mod 3) img img_name])
      | Inr png \<Rightarrow>
          (case show_images lib file_name rest of
             (r, evs) \<Rightarrow>
               (r, [St_image (i mod 3) img img_name,
                    St_download_button (''Download '' @ img_name) (Bytes png)
                      (file_name @ ''_'' @ img_name @ ''.png'') (Some ''image/png'')] @ evs)))"

definition tab2 :: "'img libraries \<Rightarrow> uploaded_file \<Rightarrow> (unit, 'img) outcome" where
  "tab2 lib uploaded =
     (case extract_images_from_pdf lib (file_seek uploaded 0) of
        (Inl e, f, evs) \<Rightarrow> (Inl e, f, [St_header ''Extracted Images'', File_seek 0] @ evs)
      | (Inr images, f, evs) \<Rightarrow>
          if images \<noteq> []
          then (case show_images lib (name uploaded) (enumerate_py images) of
                  (r, evs') \<Rightarrow>
                    (r, f, [St_header ''Extracted Images'', File_seek 0] @ evs @
                           [St_columns 3] @ evs'))
          else (Inr (), f,
                [St_header ''Extracted Images'', File_seek 0] @ evs @
                [St_info ''No images found in the PDF.'']))"

text \<open>The loop over \<^verbatim>\<open>tables\<close> that shows each dataframe and offers it as CSV.\<close>

fun show_tables ::
    "'img libraries \<Rightarrow> string \<Rightarrow> table_info list \<Rightarrow> (pyexc + unit) \<times> 'img event list" where
  "show_tables lib file_name [] = (Inr (), [])"
| "show_tables lib file_name (info # rest) =
     (let page_num = page info; table_num = table_number info; df = dataframe info;
          shown = [St_subheader (''Table '' @ str_int table_num @ '' (Page '' @
                                 str_int page_num @ '')''),
                   St_dataframe df]
      in case to_csv lib False df of
           Inl e \<Rightarrow> (Inl e, shown)
         | Inr csv_text \<Rightarrow>
             (case show_tables lib file_name rest of
                (r, evs) \<Rightarrow>
                  (r, shown @
                      [St_download_button
                         (''Download Table '' @ str_int table_num @ '' from Page '' @
                          str_int page_num @ '' as CSV'')
                         (Bytes (encode_utf8 csv_text))
                         (file_name @ ''_page'' @ str_int page_num @ ''_table_'' @
                          str_int table_num @ ''.csv'')
                         (Some ''text/csv'')] @ evs)))"

definition tab3 :: "'img libraries \<Rightarrow> uploaded_file \<Rightarrow> (unit, 'img) outcome" where
  "tab3 lib uploaded =
     (case extract_tables_from_pdf_pymupdf lib (file_seek uploaded 0) of
        (Inl e, f, evs) \<Rightarrow> (Inl e, f, [St_header ''Extracted Tables'', File_seek 0] @ evs)
      | (Inr found, f, evs) \<Rightarrow>
          if found \<noteq> [] \<and> length found > 0
          then (case show_tables lib (name uploaded) found of
                  (r, evs') \<Rightarrow>
                    (r, f, [St_header ''Extracted Tables'', File_seek 0] @ evs @ evs'))
          else (Inr (), f,
                [St_header ''Extracted Tables'', File_seek 0] @ evs @
                [St_info ''No tables found in the PDF. Table detection may not work on all PDF types.'',
                 St_write ''For complex tables, you might need to use alternative methods.'']))"

definition tab4 :: "'img libraries \<Rightarrow> string \<Rightarrow> uploaded_file \<Rightarrow> (unit, 'img) outcome" where
  "tab4 lib cohere_api_key uploaded =
     (if cohere_api_key \<noteq> []
      then
        (case extract_text_from_pdf lib (file_seek uploaded 0) of
           (Inl e, f, evs) \<Rightarrow> (Inl e, f, [St_header ''Document Summary'', File_seek 0] @ evs)
         | (Inr text, f, evs) \<Rightarrow>
             (case text of
                None \<Rightarrow> (Inr (), f, [St_header ''Document Summary'', File_seek 0] @ evs)
              | Some t \<Rightarrow>
                  if t \<noteq> []
                  then
                    (case get_cohere_summary lib t cohere_api_key of
                       (Inl e, evs') \<Rightarrow>
                         (Inl e, f,
                          [St_header ''Document Summary'', File_seek 0] @ evs @
                          [St_spinner ''Generating summary with Cohere...''] @ evs')
                     | (Inr summary, evs') \<Rightarrow>
                         (Inr (), f,
                          [St_header ''Document Summary'', File_seek 0] @ evs @
                          [St_spinner ''Generating summary with Cohere...''] @ evs' @
                          (case summary of
                             None \<Rightarrow> []
                           | Some sm \<Rightarrow>
                               if sm \<noteq> []
                               then [St_write sm,
                                     St_download_button ''Download Summary'' (Str sm)
                                       (name uploaded @ ''_summary.txt'') None]
                               else [])))
                  else (Inr (), f, [St_header ''Document Summary'', File_seek 0] @ evs)))
      else (Inr (), uploaded,
            [St_header ''Document Summary'',
             St_info ''Enter a Cohere API key in the sidebar to generate a summary.'']))"

text \<open>Running one block after another: the second runs only when the first returned.\<close>

definition then_block ::
    "(unit, 'img) outcome \<Rightarrow> (uploaded_file \<Rightarrow> (unit, 'img) outcome) \<Rightarrow> (unit, 'img) outcome" where
  "then_block first next_block =
     (case first of
        (Inl e, f, evs) \<Rightarrow> (Inl e, f, evs)
      | (Inr u, f, evs) \<Rightarrow>
          (case next_block f of (r, f', evs') \<Rightarrow> (r, f', evs @ evs')))"

definition prologue :: "'img event list" where
  "prologue =
     [St_title, St_write ''Upload a PDF file to extract images, tables, and text'',
      St_sidebar_title ''Configuration'',
      St_sidebar_text_input ''Cohere API Key (for summarization)'',
      St_file_uploader ''Choose a PDF file'']"

text \<open>
  \<^verbatim>\<open>main\<close>: \<open>cohere_api_key\<close> is what the sidebar input returned (the empty string when
  nothing was entered) and \<open>uploaded_file\<close> what the uploader returned (\<^verbatim>\<open>None\<close> before an
  upload). The result is the exception that left \<^verbatim>\<open>main\<close>, if any, and the effects in order.
\<close>

definition main ::
    "'img libraries \<Rightarrow> string \<Rightarrow> uploaded_file option \<Rightarrow> (pyexc + unit) \<times> 'img event list" where
  "main lib cohere_api_key uploaded_file =
     (case uploaded_file of
        None \<Rightarrow> (Inr (), prologue)
      | Some uploaded \<Rightarrow>
          (case then_block (tab1 lib uploaded) (\<lambda>f1.
                then_block (tab2 lib f1) (\<lambda>f2.
                then_block (tab3 lib f2) (\<lambda>f3. tab4 lib cohere_api_key f3))) of
             (r, f, evs) \<Rightarrow>
               (r, prologue @
                   [St_write_details (name uploaded) (ftype uploaded) (length (content uploaded)),
                    St_tabs [''Text'', ''Images'', ''Tables'', ''Summary'']] @ evs)))"

section \<open>Reading a run\<close>

text \<open>
  The summarization request is the call \<^verbatim>\<open>co.summarize\<close>. Constructing the client
  (\<^verbatim>\<open>cohere.Client\<close>) is a different event and does not count as the request.
\<close>

definition is_summarize_request :: "'img event \<Rightarrow> bool" where
  "is_summarize_request ev = (case ev of Co_summarize r \<Rightarrow> True | _ \<Rightarrow> False)"


definition reaches_summary_tab :: "'img libraries \<Rightarrow> uploaded_file \<Rightarrow> bool" where
  "reaches_summary_tab lib uploaded =
     (returned (tab2 lib uploaded) = Inr () \<and> returned (tab3 lib uploaded) = Inr ())"

text \<open>The widgets of the Images tab: the column layout and the images.\<close>

definition is_image_widget :: "'img event \<Rightarrow> bool" where
  "is_image_widget ev = (case ev of St_image c i n \<Rightarrow> True | St_columns n \<Rightarrow> True | _ \<Rightarrow> False)"

definition is_file_event :: "'img event \<Rightarrow> bool" where
  "is_file_event ev = (case ev of File_read b \<Rightarrow> True | File_seek n \<Rightarrow> True | _ \<Rightarrow> False)"

definition file_events :: "'img event list \<Rightarrow> 'img event list" where
  "file_events evs = filter is_file_event evs"

text \<open>
  The extraction passes after the first, as the file sees them: each is a \<^verbatim>\<open>seek(0)\<close>
  followed by a \<^verbatim>\<open>read()\<close> that returns the whole content \<open>c\<close>.
\<close>

fun later_passes_reset :: "bytes \<Rightarrow> 'img event list \<Rightarrow> bool" where
  "later_passes_reset c [] = True"
| "later_passes_reset c (File_seek n # File_read b # evs) =
     (n = 0 \<and> b = c \<and> later_passes_reset c evs)"
| "later_passes_reset c evs = False"

text \<open>The dataframes shown by \<^verbatim>\<open>st.dataframe\<close> and the CSV payloads offered, in order.\<close>

definition displayed_tables :: "'img event list \<Rightarrow> dataframe list" where
  "displayed_tables evs =
     List.map_filter (\<lambda>ev. case ev of St_dataframe df \<Rightarrow> Some df | _ \<Rightarrow> None) evs"

definition csv_payload :: "'img event \<Rightarrow> bytes option" where
  "csv_payload ev =
     (case ev of
        St_download_button label (Bytes b) file_name (Some mime) \<Rightarrow>
          if mime = ''text/csv'' then Some b else None
      | _ \<Rightarrow> None)"

definition csv_downloads :: "'img event list \<Rightarrow> bytes list" where
  "csv_downloads evs = List.map_filter csv_payload evs"

text \<open>
  A document none of whose pages lists an embedded image, and one none of whose pages has a
  detected table, as the library reports them for the stream.
\<close>

definition page_without_images :: "fitz_document \<Rightarrow> int \<Rightarrow> bool" where
  "page_without_images pdf_document page_num =
     (case getitem pdf_document page_num of
        Inl e \<Rightarrow> True
      | Inr pg \<Rightarrow> (case get_images pg of Inl e \<Rightarrow> True | Inr image_list \<Rightarrow> image_list = []))"

definition no_embedded_images :: "'img libraries \<Rightarrow> bytes \<Rightarrow> bool" where
  "no_embedded_images lib stream =
     (case fitz_open lib stream of
        Inl e \<Rightarrow> False
      | Inr pdf_document \<Rightarrow>
          list_all (page_without_images pdf_document) (py_range (page_count pdf_document)))"

definition page_without_tables :: "fitz_document \<Rightarrow> int \<Rightarrow> bool" where
  "page_without_tables pdf_document page_num =
     (case getitem pdf_document page_num of
        Inl e \<Rightarrow> True
      | Inr pg \<Rightarrow> (case find_tables pg of Inl e \<Rightarrow> True | Inr tabs \<Rightarrow> tables tabs = []))"

definition no_detected_tables :: "'img libraries \<Rightarrow> bytes \<Rightarrow> bool" where
  "no_detected_tables lib stream =
     (case fitz_open lib stream of
        Inl e \<Rightarrow> False
      | Inr pdf_document \<Rightarrow>
          list_all (page_without_tables pdf_document) (py_range (page_count pdf_document)))"

text \<open>
  The header rule in the words of the specification: a first row is a header when every
  cell of it is a string that is not empty after stripping white space; the generic labels
  are "Column 1", "Column 2", ... ; \<open>grid\<close> is the cell grid of a table as the library
  reports it, row by row.
\<close>

definition first_row_filled :: "string option list \<Rightarrow> bool" where
  "first_row_filled first_row =
     list_all (\<lambda>cell. case cell of None \<Rightarrow> False | Some s \<Rightarrow> strip s \<noteq> []) first_row"

definition numbered_columns :: "nat \<Rightarrow> string option list" where
  "numbered_columns n = map (\<lambda>k. Some (''Column '' @ str_int (int k))) [1..<Suc n]"

definition header_rule :: "string option list list \<Rightarrow> dataframe option" where
  "header_rule rows_data =
     (case rows_data of
        [] \<Rightarrow> None
      | first_row # others \<Rightarrow>
          Some (if first_row_filled first_row
                then \<lparr>columns = first_row, data = others\<rparr>
                else \<lparr>columns = numbered_columns (length first_row), data = first_row # others\<rparr>))"

definition grid :: "fitz_table \<Rightarrow> (pyexc + string option) list list" where
  "grid table =
     map (\<lambda>row. map (\<lambda>col. cell_text table row col) (py_range (cols table)))
         (py_range (rows table))"

text \<open>
  The images of a document in document order, in the words of the specification: pages
  ascending, the images of a page in the order the library lists them, each with its page
  number and its number on the page, both counted from 1. \<open>image_caption\<close> is the caption
  "Page p, Image k" and \<open>decode_image\<close> the image the libraries give for a listed entry.
\<close>

definition page_image_list :: "fitz_document \<Rightarrow> int \<Rightarrow> int list list" where
  "page_image_list pdf_document page_num =
     (case getitem pdf_document page_num of
        Inl e \<Rightarrow> []
      | Inr pg \<Rightarrow> (case get_images pg of Inl e \<Rightarrow> [] | Inr image_list \<Rightarrow> image_list))"

definition numbered_images :: "fitz_document \<Rightarrow> int \<Rightarrow> (int \<times> int \<times> int list) list" where
  "numbered_images pdf_document page_num =
     map (\<lambda>(img_index, img). (page_num + 1, img_index + 1, img))
         (enumerate_py (page_image_list pdf_document page_num))"

definition document_order :: "fitz_document \<Rightarrow> (int \<times> int \<times> int list) list" where
  "document_order pdf_document =
     concat (map (numbered_images pdf_document) (py_range (page_count pdf_document)))"

definition image_caption :: "int \<Rightarrow> int \<Rightarrow> string" where
  "image_caption p k = ''Page '' @ str_int p @ '', Image '' @ str_int k"

definition decode_image :: "'img libraries \<Rightarrow> fitz_document \<Rightarrow> int list \<Rightarrow> pyexc + 'img" where
  "decode_image lib pdf_document img =
     (case tuple_first img of
        Inl e \<Rightarrow> Inl e
      | Inr xref \<Rightarrow>
          (case extract_image pdf_document xref of
             Inl e \<Rightarrow> Inl e
           | Inr base_image \<Rightarrow>
               (case dict_getitem base_image ''image'' of
                  Inl e \<Rightarrow> Inl e
                | Inr image_bytes \<Rightarrow> Image_open lib image_bytes)))"

text \<open>Earlier in document order: on an earlier page, or earlier on the same page.\<close>

definition earlier :: "int \<times> int \<times> 'a \<Rightarrow> int \<times> int \<times> 'a \<Rightarrow> bool" where
  "earlier a b = (fst a < fst b \<or> (fst a = fst b \<and> fst (snd a) < fst (snd b)))"

section \<open>Sample inputs\<close>

text \<open>
  A two-page document for the concrete runs below. Page 1 has two images and three detected
  tables: one with a header row, one with no rows, one whose first row has a blank cell.
  Page 2 has one image and no table.
\<close>

definition header_table :: fitz_table where
  "header_table =
     \<lparr>rows = 2, cols = 2,
      cell_text = (\<lambda>r c. Inr (Some ([[''a'', ''b''], [''1'', ''2'']] ! nat r ! nat c)))\<rparr>"

definition no_rows_table :: fitz_table where
  "no_rows_table =
     \<lparr>rows = 0, cols = 3, cell_text = (\<lambda>r c. Inl (PyExc ''IndexError'' ''no such cell''))\<rparr>"

definition blank_head_table :: fitz_table where
  "blank_head_table =
     \<lparr>rows = 2, cols = 2,
      cell_text = (\<lambda>r c. Inr ([[Some ''x'', Some '' ''], [None, Some ''2'']] ! nat r ! nat c))\<rparr>"

definition sample_doc :: fitz_document where
  "sample_doc =
     \<lparr>page_count = 2,
      getitem = (\<lambda>n.
        if n = 0
        then Inr \<lparr>get_text = Inr ''Hello '', get_images = Inr [[7, 0], [8, 0]],
                  find_tables =
                    Inr \<lparr>tables = [header_table, no_rows_table, blank_head_table]\<rparr>\<rparr>
        else if n = 1
        then Inr \<lparr>get_text = Inr ''World'', get_images = Inr [[9]],
                  find_tables = Inr \<lparr>tables = []\<rparr>\<rparr>
        else Inl (PyExc ''IndexError'' ''page not in document'')),
      extract_image = (\<lambda>xref. Inr [''image'' \<mapsto> [of_int xref]])\<rparr>"

text \<open>A one-page document with text only.\<close>

definition plain_doc :: fitz_document where
  "plain_doc =
     \<lparr>page_count = 1,
      getitem = (\<lambda>n.
        if n = 0
        then Inr \<lparr>get_text = Inr ''Plain'', get_images = Inr [],
                  find_tables = Inr \<lparr>tables = []\<rparr>\<rparr>
        else Inl (PyExc ''IndexError'' ''page not in document'')),
      extract_image = (\<lambda>xref. Inl (PyExc ''ValueError'' ''bad xref''))\<rparr>"

text \<open>A one-page document with one image and no table.\<close>

definition image_only_doc :: fitz_document where
  "image_only_doc =
     \<lparr>page_count = 1,
      getitem = (\<lambda>n.
        if n = 0
        then Inr \<lparr>get_text = Inr ''Picture'', get_images = Inr [[5]],
                  find_tables = Inr \<lparr>tables = []\<rparr>\<rparr>
        else Inl (PyExc ''IndexError'' ''page not in document'')),
      extract_image = (\<lambda>xref. Inr [''image'' \<mapsto> [of_int xref]])\<rparr>"

text \<open>
  A one-page document with two tables that differ in one cell only: \<^verbatim>\<open>None\<close> in the first,
  the empty string in the second.
\<close>

definition empty_cell_table :: fitz_table where
  "empty_cell_table =
     \<lparr>rows = 2, cols = 2,
      cell_text = (\<lambda>r c. Inr ([[Some ''x'', Some '' ''], [Some [], Some ''2'']] ! nat r ! nat c))\<rparr>"

definition twin_doc :: fitz_document where
  "twin_doc =
     \<lparr>page_count = 1,
      getitem = (\<lambda>n.
        if n = 0
        then Inr \<lparr>get_text = Inr ''Twins'', get_images = Inr [],
                  find_tables = Inr \<lparr>tables = [blank_head_table, empty_cell_table]\<rparr>\<rparr>
        else Inl (PyExc ''IndexError'' ''page not in document'')),
      extract_image = (\<lambda>xref. Inl (PyExc ''ValueError'' ''bad xref''))\<rparr>"

text \<open>
  A plain CSV writer and reader for the sample library (no quoting). The writer writes
  \<^verbatim>\<open>None\<close> and the empty string as an empty field.
\<close>

fun join_comma :: "string list \<Rightarrow> string" where
  "join_comma [] = []"
| "join_comma [x] = x"
| "join_comma (x # y # zs) = x @ '','' @ join_comma (y # zs)"

definition cell_str :: "string option \<Rightarrow> string" where
  "cell_str c = (case c of None \<Rightarrow> [] | Some s \<Rightarrow> s)"

definition sample_to_csv :: "bool \<Rightarrow> dataframe \<Rightarrow> pyexc + string" where
  "sample_to_csv index df =
     (if index then Inl (PyExc ''NotImplementedError'' ''index column'')
      else Inr (concat (map (\<lambda>r. join_comma (map cell_str r) @ [CHR 0x0A])
                            (columns df # data df))))"

fun split_on :: "char \<Rightarrow> string \<Rightarrow> string list" where
  "split_on c [] = [[]]"
| "split_on c (x # xs) =
     (if x = c then [] # split_on c xs
      else (case split_on c xs of [] \<Rightarrow> [[x]] | w # ws \<Rightarrow> (x # w) # ws))"

definition csv_fields :: "string \<Rightarrow> string option list" where
  "csv_fields line = map (\<lambda>w. if w = [] then None else Some w) (split_on CHR '','' line)"

definition sample_read_csv :: "bytes \<Rightarrow> dataframe option" where
  "sample_read_csv b =
     (case butlast (split_on (CHR 0x0A) (map (\<lambda>w. char_of (unat w)) b)) of
        [] \<Rightarrow> None
      | header # body \<Rightarrow> Some \<lparr>columns = csv_fields header, data = map csv_fields body\<rparr>)"

text \<open>
  The sample library: it opens the one-byte streams \<open>[1]\<close> to \<open>[4]\<close> as the four
  documents and rejects every other stream; an image is its bytes; the Cohere client
  rejects the key \<open>''bad''\<close>. The second library is the same except that saving an image
  as PNG raises, as PIL does for an image in CMYK mode.
\<close>

definition sample_lib :: "bytes libraries" where
  "sample_lib =
     \<lparr>fitz_open = (\<lambda>stream.
        if stream = [1] then Inr sample_doc
        else if stream = [2] then Inr plain_doc
        else if stream = [3] then Inr image_only_doc
        else if stream = [4] then Inr twin_doc
        else Inl (PyExc ''FileDataError'' ''Failed to open stream'')),
      Image_open = (\<lambda>b. Inr b),
      Image_save_png = (\<lambda>img. Inr (0x89 # img)),
      to_csv = sample_to_csv,
      cohere_Client = (\<lambda>k.
        if k = ''bad'' then Inl (PyExc ''CohereError'' ''invalid api token'')
        else Inr (CohereClient k)),
      co_summarize = (\<lambda>co r. Inr (''Summary: '' @ req_text r))\<rparr>"

definition cmyk_lib :: "bytes libraries" where
  "cmyk_lib =
     sample_lib\<lparr>Image_save_png :=
       (\<lambda>img. Inl (PyExc ''OSError'' ''cannot write mode CMYK as PNG''))\<rparr>"

definition sample_file :: uploaded_file where
  "sample_file = \<lparr>name = ''a.pdf'', ftype = ''application/pdf'', content = [1], pos = 0\<rparr>"

definition plain_file :: uploaded_file where
  "plain_file = \<lparr>name = ''p.pdf'', ftype = ''application/pdf'', content = [2], pos = 0\<rparr>"

definition broken_file :: uploaded_file where
  "broken_file = \<lparr>name = ''x.pdf'', ftype = ''application/pdf'', content = [0], pos = 0\<rparr>"


definition twin_file :: uploaded_file where
  "twin_file = \<lparr>name = ''t.pdf'', ftype = ''application/pdf'', content = [4], pos = 0\<rparr>"

section \<open>Properties\<close>

subsection \<open>Ranges\<close>

lemma py_range_0 [simp]: "py_range 0 = []"
  and py_range_1 [simp]: "py_range 1 = [0]"
  and py_range_2 [simp]: "py_range 2 = [0, 1]"
  and py_range_3 [simp]: "py_range 3 = [0, 1, 2]"
  by (simp_all add: py_range_def upto.simps)

subsection \<open>The handlers\<close>

text \<open>Each extraction function, written with the projections of \<open>file_read\<close>.\<close>

lemma extract_text_unfold:
  "extract_text_from_pdf lib pdf_file =
     (case text_try lib (fst (file_read pdf_file)) of
        Inr text \<Rightarrow>
          (Inr (Some text), snd (file_read pdf_file), [File_read (fst (file_read pdf_file))])
      | Inl e \<Rightarrow>
          (Inr None, snd (file_read pdf_file),
           [File_read (fst (file_read pdf_file)),
            St_error (''Error extracting text: '' @ exc_str e)]))"
  by (simp add: extract_text_from_pdf_def Let_def case_prod_beta)

lemma extract_images_unfold:
  "extract_images_from_pdf lib pdf_file =
     (case images_try lib (fst (file_read pdf_file)) of
        Inr images \<Rightarrow>
          (Inr images, snd (file_read pdf_file), [File_read (fst (file_read pdf_file))])
      | Inl e \<Rightarrow>
          (Inr [], snd (file_read pdf_file),
           [File_read (fst (file_read pdf_file)),
            St_error (''Error extracting images: '' @ exc_str e)]))"
  by (simp add: extract_images_from_pdf_def Let_def case_prod_beta)

lemma extract_tables_unfold:
  "extract_tables_from_pdf_pymupdf lib pdf_file =
     (case tables_try lib (fst (file_read pdf_file)) of
        Inr found \<Rightarrow>
          (Inr found, snd (file_read pdf_file), [File_read (fst (file_read pdf_file))])
      | Inl e \<Rightarrow>
          (Inr [], snd (file_read pdf_file),
           [File_read (fst (file_read pdf_file)),
            St_error (''Error extracting tables with PyMuPDF: '' @ exc_str e)]))"
  by (simp add: extract_tables_from_pdf_pymupdf_def Let_def case_prod_beta)

lemma get_cohere_summary_unfold:
  "get_cohere_summary lib text api_key =
     (case fst (summary_try lib text api_key) of
        Inr summary \<Rightarrow> (Inr (Some summary), snd (summary_try lib text api_key))
      | Inl e \<Rightarrow>
          (Inr None,
           snd (summary_try lib text api_key) @
           [St_error (''Error with Cohere API: '' @ exc_str e)]))"
  by (simp add: get_cohere_summary_def case_prod_beta split: sum.splits)

text \<open>
  Claim C1, as the code has it. When the body of the \<^verbatim>\<open>try\<close> raises \<open>e\<close>, each
  function shows one error message built from \<open>e\<close> and returns its fallback value: the
  empty list for images and tables, \<^verbatim>\<open>None\<close> (not the empty string) for the text and for
  the summary. Whatever the loop had collected before the exception is dropped.
\<close>

theorem failure_reports_and_returns_empty:
  fixes lib :: "'img libraries"
  shows "(text_try lib (fst (file_read pdf_file)) = Inl e \<longrightarrow>
            extract_text_from_pdf lib pdf_file =
              (Inr None, snd (file_read pdf_file),
               [File_read (fst (file_read pdf_file)),
                St_error (''Error extracting text: '' @ exc_str e)]))
       \<and> (images_try lib (fst (file_read pdf_file)) = Inl e \<longrightarrow>
            extract_images_from_pdf lib pdf_file =
              (Inr [], snd (file_read pdf_file),
               [File_read (fst (file_read pdf_file)),
                St_error (''Error extracting images: '' @ exc_str e)]))
       \<and> (tables_try lib (fst (file_read pdf_file)) = Inl e \<longrightarrow>
            extract_tables_from_pdf_pymupdf lib pdf_file =
              (Inr [], snd (file_read pdf_file),
               [File_read (fst (file_read pdf_file)),
                St_error (''Error extracting tables with PyMuPDF: '' @ exc_str e)]))
       \<and> (fst (summary_try lib text api_key) = Inl e \<longrightarrow>
            get_cohere_summary lib text api_key =
              (Inr None,
               snd (summary_try lib text api_key) @
               [St_error (''Error with Cohere API: '' @ exc_str e)]))"
  by (simp add: extract_text_unfold extract_images_unfold extract_tables_unfold
      get_cohere_summary_unfold)

text \<open>The sample library rejects the stream of \<open>broken_file\<close>.\<close>

lemma sample_open_broken:
  "fitz_open sample_lib (fst (file_read broken_file)) =
     Inl (PyExc ''FileDataError'' ''Failed to open stream'')"
  by (simp add: sample_lib_def broken_file_def file_read_def)

theorem failure_reports_and_returns_empty_witness:
  "extract_text_from_pdf sample_lib broken_file =
     (Inr None, broken_file\<lparr>pos := 1\<rparr>,
      [File_read [0], St_error ''Error extracting text: Failed to open stream''])
   \<and> extract_images_from_pdf sample_lib broken_file =
     (Inr [], broken_file\<lparr>pos := 1\<rparr>,
      [File_read [0], St_error ''Error extracting images: Failed to open stream''])
   \<and> extract_tables_from_pdf_pymupdf sample_lib broken_file =
     (Inr [], broken_file\<lparr>pos := 1\<rparr>,
      [File_read [0], St_error ''Error extracting tables with PyMuPDF: Failed to open stream''])
   \<and> get_cohere_summary sample_lib ''Hello'' ''bad'' =
     (Inr None, [Cohere_Client ''bad'', St_error ''Error with Cohere API: invalid api token''])"
proof -
  let ?e = "PyExc ''FileDataError'' ''Failed to open stream''"
  let ?c = "PyExc ''CohereError'' ''invalid api token''"
  have t: "text_try sample_lib (fst (file_read broken_file)) = Inl ?e"
    by (simp add: text_try_def sample_open_broken)
  have i: "images_try sample_lib (fst (file_read broken_file)) = Inl ?e"
    by (simp add: images_try_def sample_open_broken)
  have b: "tables_try sample_lib (fst (file_read broken_file)) = Inl ?e"
    by (simp add: tables_try_def sample_open_broken)
  have s: "summary_try sample_lib ''Hello'' ''bad'' = (Inl ?c, [Cohere_Client ''bad''])"
    by (simp add: summary_try_def sample_lib_def)
  have f: "file_read broken_file = ([0], broken_file\<lparr>pos := 1\<rparr>)"
    by (simp add: file_read_def broken_file_def)
  from failure_reports_and_returns_empty [of sample_lib broken_file "?e"]
  have r1: "extract_text_from_pdf sample_lib broken_file =
     (Inr None, broken_file\<lparr>pos := 1\<rparr>,
      [File_read [0], St_error ''Error extracting text: Failed to open stream''])"
   and r2: "extract_images_from_pdf sample_lib broken_file =
     (Inr [], broken_file\<lparr>pos := 1\<rparr>,
      [File_read [0], St_error ''Error extracting images: Failed to open stream''])"
   and r3: "extract_tables_from_pdf_pymupdf sample_lib broken_file =
     (Inr [], broken_file\<lparr>pos := 1\<rparr>,
      [File_read [0], St_error ''Error extracting tables with PyMuPDF: Failed to open stream''])"
    using t i b f by simp_all
  from failure_reports_and_returns_empty [of sample_lib _ "?c" "''Hello''" "''bad''"]
  have r4: "get_cohere_summary sample_lib ''Hello'' ''bad'' =
     (Inr None, [Cohere_Client ''bad'', St_error ''Error with Cohere API: invalid api token''])"
    using s by simp
  from r1 r2 r3 r4 show ?thesis by simp
qed

text \<open>
  On the rejected stream the text extraction returns \<^verbatim>\<open>None\<close>, which is not the
  empty string.
\<close>

theorem text_failure_returns_None_counterexample:
  "text_try sample_lib (fst (file_read broken_file)) =
     Inl (PyExc ''FileDataError'' ''Failed to open stream'')
   \<and> returned (extract_text_from_pdf sample_lib broken_file) = Inr None
   \<and> returned (extract_text_from_pdf sample_lib broken_file) \<noteq> Inr (Some [])"
  by (simp add: extract_text_unfold text_try_def sample_open_broken)

text \<open>
  Claim C2. Whatever the libraries do, no exception leaves \<^verbatim>\<open>extract_text_from_pdf\<close>,
  \<^verbatim>\<open>extract_images_from_pdf\<close>, \<^verbatim>\<open>extract_tables_from_pdf_pymupdf\<close> or
  \<^verbatim>\<open>get_cohere_summary\<close>: each returns a value. An exception raised inside the
  \<^verbatim>\<open>try\<close> is shown to the user by \<^verbatim>\<open>st.error\<close> with its message.
\<close>

theorem library_exceptions_caught:
  fixes lib :: "'img libraries"
  shows "(\<forall>e. returned (extract_text_from_pdf lib pdf_file) \<noteq> Inl e)
       \<and> (\<forall>e. returned (extract_images_from_pdf lib pdf_file) \<noteq> Inl e)
       \<and> (\<forall>e. returned (extract_tables_from_pdf_pymupdf lib pdf_file) \<noteq> Inl e)
       \<and> (\<forall>e. fst (get_cohere_summary lib text api_key) \<noteq> Inl e)
       \<and> (\<forall>e. text_try lib (fst (file_read pdf_file)) = Inl e \<longrightarrow>
            St_error (''Error extracting text: '' @ exc_str e)
              \<in> set (effects (extract_text_from_pdf lib pdf_file)))
       \<and> (\<forall>e. images_try lib (fst (file_read pdf_file)) = Inl e \<longrightarrow>
            St_error (''Error extracting images: '' @ exc_str e)
              \<in> set (effects (extract_images_from_pdf lib pdf_file)))
       \<and> (\<forall>e. tables_try lib (fst (file_read pdf_file)) = Inl e \<longrightarrow>
            St_error (''Error extracting tables with PyMuPDF: '' @ exc_str e)
              \<in> set (effects (extract_tables_from_pdf_pymupdf lib pdf_file)))
       \<and> (\<forall>e. fst (summary_try lib text api_key) = Inl e \<longrightarrow>
            St_error (''Error with Cohere API: '' @ exc_str e)
              \<in> set (snd (get_cohere_summary lib text api_key)))"
  by (simp add: extract_text_unfold extract_images_unfold extract_tables_unfold
      get_cohere_summary_unfold split: sum.splits)

theorem library_exceptions_caught_witness:
  "text_try sample_lib (fst (file_read broken_file)) =
     Inl (PyExc ''FileDataError'' ''Failed to open stream'')
   \<and> images_try sample_lib (fst (file_read broken_file)) =
     Inl (PyExc ''FileDataError'' ''Failed to open stream'')
   \<and> tables_try sample_lib (fst (file_read broken_file)) =
     Inl (PyExc ''FileDataError'' ''Failed to open stream'')
   \<and> fst (summary_try sample_lib ''Hello'' ''bad'') =
     Inl (PyExc ''CohereError'' ''invalid api token'')
   \<and> St_error ''Error extracting text: Failed to open stream''
       \<in> set (effects (extract_text_from_pdf sample_lib broken_file))
   \<and> St_error ''Error extracting images: Failed to open stream''
       \<in> set (effects (extract_images_from_pdf sample_lib broken_file))
   \<and> St_error ''Error extracting tables with PyMuPDF: Failed to open stream''
       \<in> set (effects (extract_tables_from_pdf_pymupdf sample_lib broken_file))
   \<and> St_error ''Error with Cohere API: invalid api token''
       \<in> set (snd (get_cohere_summary sample_lib ''Hello'' ''bad''))
   \<and> returned (extract_text_from_pdf sample_lib broken_file) = Inr None"
proof -
  let ?e = "PyExc ''FileDataError'' ''Failed to open stream''"
  let ?c = "PyExc ''CohereError'' ''invalid api token''"
  have t: "text_try sample_lib (fst (file_read broken_file)) = Inl ?e"
    by (simp add: text_try_def sample_open_broken)
  have i: "images_try sample_lib (fst (file_read broken_file)) = Inl ?e"
    by (simp add: images_try_def sample_open_broken)
  have b: "tables_try sample_lib (fst (file_read broken_file)) = Inl ?e"
    by (simp add: tables_try_def sample_open_broken)
  have s: "fst (summary_try sample_lib ''Hello'' ''bad'') = Inl ?c"
    by (simp add: summary_try_def sample_lib_def)
  have n: "returned (extract_text_from_pdf sample_lib broken_file) = Inr None"
    using library_exceptions_caught [of sample_lib broken_file "''Hello''" "''bad''"] t
    by (simp add: extract_text_unfold)
  from library_exceptions_caught [of sample_lib broken_file "''Hello''" "''bad''"] t i b s n
  show ?thesis by simp
qed

subsection \<open>The tabs\<close>

text \<open>After \<^verbatim>\<open>seek(0)\<close> a pass reads the whole content, wherever the cursor was.\<close>

lemma file_read_seek0 [simp]:
  "file_read (file_seek f 0) = (content f, f\<lparr>pos := length (content f)\<rparr>)"
  by (simp add: file_read_def file_seek_def)

lemma text_after_seek:
  "extract_text_from_pdf lib (file_seek uploaded 0) =
     (case text_try lib (content uploaded) of
        Inr text \<Rightarrow>
          (Inr (Some text), uploaded\<lparr>pos := length (content uploaded)\<rparr>,
           [File_read (content uploaded)])
      | Inl e \<Rightarrow>
          (Inr None, uploaded\<lparr>pos := length (content uploaded)\<rparr>,
           [File_read (content uploaded),
            St_error (''Error extracting text: '' @ exc_str e)]))"
  by (simp add: extract_text_unfold split: sum.splits)

lemma tab4_effects:
  "effects (tab4 lib cohere_api_key uploaded) =
     (if cohere_api_key = []
      then [St_header ''Document Summary'',
            St_info ''Enter a Cohere API key in the sidebar to generate a summary.'']
      else [St_header ''Document Summary'', File_seek 0, File_read (content uploaded)] @
           (case text_try lib (content uploaded) of
              Inl e \<Rightarrow> [St_error (''Error extracting text: '' @ exc_str e)]
            | Inr t \<Rightarrow>
                if t = [] then []
                else [St_spinner ''Generating summary with Cohere...''] @
                     snd (get_cohere_summary lib t cohere_api_key) @
                     (case fst (get_cohere_summary lib t cohere_api_key) of
                        Inr (Some sm) \<Rightarrow>
                          if sm \<noteq> []
                          then [St_write sm,
                                St_download_button ''Download Summary'' (Str sm)
                                  (name uploaded @ ''_summary.txt'') None]
                          else []
                      | _ \<Rightarrow> [])))"
  by (simp add: tab4_def text_after_seek split: sum.splits prod.splits option.splits)

text \<open>What each tab shows, and where it leaves the file.\<close>

lemma tab1_effects:
  "effects (tab1 lib uploaded) =
     [St_header ''Extracted Text'', File_read (drop (pos uploaded) (content uploaded))] @
     (case text_try lib (drop (pos uploaded) (content uploaded)) of
        Inl e \<Rightarrow> [St_error (''Error extracting text: '' @ exc_str e)]
      | Inr t \<Rightarrow>
          if t \<noteq> []
          then [St_text_area ''Text Content'' t,
                St_download_button ''Download Text'' (Str t) (name uploaded @ ''_text.txt'') None]
          else [])"
  and tab1_returned: "returned (tab1 lib uploaded) = Inr ()"
  and tab1_file: "fst (snd (tab1 lib uploaded)) =
     uploaded\<lparr>pos := max (pos uploaded) (length (content uploaded))\<rparr>"
  by (simp_all add: tab1_def extract_text_unfold file_read_def split: sum.splits)

lemma images_after_seek:
  "extract_images_from_pdf lib (file_seek uploaded 0) =
     (case images_try lib (content uploaded) of
        Inr images \<Rightarrow>
          (Inr images, uploaded\<lparr>pos := length (content uploaded)\<rparr>,
           [File_read (content uploaded)])
      | Inl e \<Rightarrow>
          (Inr [], uploaded\<lparr>pos := length (content uploaded)\<rparr>,
           [File_read (content uploaded),
            St_error (''Error extracting images: '' @ exc_str e)]))"
  by (simp add: extract_images_unfold split: sum.splits)

lemma tables_after_seek:
  "extract_tables_from_pdf_pymupdf lib (file_seek uploaded 0) =
     (case tables_try lib (content uploaded) of
        Inr found \<Rightarrow>
          (Inr found, uploaded\<lparr>pos := length (content uploaded)\<rparr>,
           [File_read (content uploaded)])
      | Inl e \<Rightarrow>
          (Inr [], uploaded\<lparr>pos := length (content uploaded)\<rparr>,
           [File_read (content uploaded),
            St_error (''Error extracting tables with PyMuPDF: '' @ exc_str e)]))"
  by (simp add: extract_tables_unfold split: sum.splits)

lemma tab2_effects:
  "effects (tab2 lib uploaded) =
     [St_header ''Extracted Images'', File_seek 0, File_read (content uploaded)] @
     (case images_try lib (content uploaded) of
        Inl e \<Rightarrow> [St_error (''Error extracting images: '' @ exc_str e),
                  St_info ''No images found in the PDF.'']
      | Inr images \<Rightarrow>
          if images = [] then [St_info ''No images found in the PDF.'']
          else St_columns 3 # snd (show_images lib (name uploaded) (enumerate_py images)))"
  and tab2_file: "fst (snd (tab2 lib uploaded)) = uploaded\<lparr>pos := length (content uploaded)\<rparr>"
  by (simp_all add: tab2_def images_after_seek split: sum.splits prod.splits)

lemma tab3_effects:
  "effects (tab3 lib uploaded) =
     [St_header ''Extracted Tables'', File_seek 0, File_read (content uploaded)] @
     (case tables_try lib (content uploaded) of
        Inl e \<Rightarrow>
          [St_error (''Error extracting tables with PyMuPDF: '' @ exc_str e),
           St_info ''No tables found in the PDF. Table detection may not work on all PDF types.'',
           St_write ''For complex tables, you might need to use alternative methods.'']
      | Inr found \<Rightarrow>
          if found = []
          then [St_info ''No tables found in the PDF. Table detection may not work on all PDF types.'',
                St_write ''For complex tables, you might need to use alternative methods.'']
          else snd (show_tables lib (name uploaded) found))"
  and tab3_file: "fst (snd (tab3 lib uploaded)) = uploaded\<lparr>pos := length (content uploaded)\<rparr>"
  by (simp_all add: tab3_def tables_after_seek split: sum.splits prod.splits)

lemma show_images_no_file_event:
  "file_events (snd (show_images lib file_name xs)) = []"
  by (induction xs) (auto simp: file_events_def is_file_event_def split: sum.splits prod.splits)

lemma show_tables_no_file_event:
  "file_events (snd (show_tables lib file_name xs)) = []"
  by (induction xs)
    (auto simp: file_events_def is_file_event_def Let_def split: sum.splits prod.splits)

lemma get_cohere_summary_no_file_event:
  "file_events (snd (get_cohere_summary lib t k)) = []"
  by (simp add: get_cohere_summary_unfold summary_try_def file_events_def is_file_event_def
      split: sum.splits)

lemma file_events_tab1:
  "file_events (effects (tab1 lib uploaded)) =
     [File_read (drop (pos uploaded) (content uploaded))]"
  by (simp add: tab1_effects file_events_def is_file_event_def split: sum.splits)

lemma file_events_tab2:
  "file_events (effects (tab2 lib uploaded)) = [File_seek 0, File_read (content uploaded)]"
  using show_images_no_file_event [of lib]
  by (simp add: tab2_effects file_events_def is_file_event_def split: sum.splits)

lemma file_events_tab3:
  "file_events (effects (tab3 lib uploaded)) = [File_seek 0, File_read (content uploaded)]"
  using show_tables_no_file_event [of lib]
  by (simp add: tab3_effects file_events_def is_file_event_def split: sum.splits)

lemma file_events_tab4:
  "file_events (effects (tab4 lib cohere_api_key uploaded)) =
     (if cohere_api_key = [] then [] else [File_seek 0, File_read (content uploaded)])"
  using get_cohere_summary_no_file_event [of lib]
  by (simp add: tab4_effects file_events_def is_file_event_def split: sum.splits option.splits)


subsection \<open>The passes over the file\<close>

lemma then_block_effects:
  "effects (then_block a k) =
     (case returned a of Inl e \<Rightarrow> effects a | Inr u \<Rightarrow> effects a @ effects (k (fst (snd a))))"
  and then_block_returned:
  "returned (then_block a k) =
     (case returned a of Inl e \<Rightarrow> Inl e | Inr u \<Rightarrow> returned (k (fst (snd a))))"
  by (simp_all add: then_block_def split: prod.splits sum.splits)

lemma file_events_append [simp]: "file_events (xs @ ys) = file_events xs @ file_events ys"
  by (simp add: file_events_def)

lemma file_events_prologue:
  "file_events prologue = []"
  "file_events (St_write_details a b c # evs) = file_events evs"
  "file_events (St_tabs ts # evs) = file_events evs"
  by (simp_all add: prologue_def file_events_def is_file_event_def)

lemma main_effects:
  "snd (main lib cohere_api_key (Some uploaded)) =
     prologue @
     [St_write_details (name uploaded) (ftype uploaded) (length (content uploaded)),
      St_tabs [''Text'', ''Images'', ''Tables'', ''Summary'']] @
     effects (then_block (tab1 lib uploaded) (\<lambda>f1.
                then_block (tab2 lib f1) (\<lambda>f2.
                then_block (tab3 lib f2) (\<lambda>f3. tab4 lib cohere_api_key f3))))"
  and main_returned:
  "fst (main lib cohere_api_key (Some uploaded)) =
     returned (then_block (tab1 lib uploaded) (\<lambda>f1.
                then_block (tab2 lib f1) (\<lambda>f2.
                then_block (tab3 lib f2) (\<lambda>f3. tab4 lib cohere_api_key f3))))"
  by (simp_all add: main_def split: prod.splits)

lemma main_file_events:
  "file_events (snd (main lib cohere_api_key (Some uploaded))) =
     File_read (drop (pos uploaded) (content uploaded)) #
     [File_seek 0, File_read (content uploaded)] @
     (case returned (tab2 lib (fst (snd (tab1 lib uploaded)))) of
        Inl e \<Rightarrow> []
      | Inr u \<Rightarrow>
          [File_seek 0, File_read (content uploaded)] @
          (case returned (tab3 lib (fst (snd (tab2 lib (fst (snd (tab1 lib uploaded))))))) of
             Inl e \<Rightarrow> []
           | Inr u \<Rightarrow>
               if cohere_api_key = [] then [] else [File_seek 0, File_read (content uploaded)]))"
  by (simp add: main_effects file_events_prologue then_block_effects tab1_returned
      file_events_tab1 file_events_tab2 file_events_tab3 file_events_tab4
      tab1_file tab2_file tab3_file split: sum.splits)

text \<open>
  Claim C7. The first pass of \<^verbatim>\<open>main\<close> reads from the cursor the file arrives with
  (the whole content when that is 0). Every later pass, in the Images tab, the Tables tab
  and the Summary tab, is a \<^verbatim>\<open>seek(0)\<close> followed by a read of the whole content. A run
  that returns makes two later passes without a key and three with one.
\<close>

theorem later_passes_read_from_start:
  fixes lib :: "'img libraries"
  shows "\<exists>rest.
           file_events (snd (main lib cohere_api_key (Some uploaded))) =
             File_read (drop (pos uploaded) (content uploaded)) # rest
         \<and> rest \<noteq> []
         \<and> later_passes_reset (content uploaded) rest
         \<and> (fst (main lib cohere_api_key (Some uploaded)) = Inr () \<longrightarrow>
              length rest = (if cohere_api_key = [] then 4 else 6))"
  by (simp add: main_file_events main_returned then_block_returned tab1_returned
      split: sum.splits)

lemma main_sample_returns: "fst (main sample_lib ''key'' (Some sample_file)) = Inr ()"
  by code_simp

theorem later_passes_read_from_start_witness:
  "fst (main sample_lib ''key'' (Some sample_file)) = Inr ()
   \<and> (\<exists>rest. file_events (snd (main sample_lib ''key'' (Some sample_file))) = File_read [1] # rest
         \<and> later_passes_reset [1] rest \<and> length rest = 6)"
  using later_passes_read_from_start [of sample_lib "''key''" sample_file] main_sample_returns
  by (auto simp: sample_file_def)

subsection \<open>Documents without images or tables\<close>

lemma enumerate_py_Nil [simp]: "enumerate_py [] = []"
  by (simp add: enumerate_py_def)

lemma images_pages_none:
  "list_all (page_without_images pdf_document) page_nums \<Longrightarrow>
   images_pages lib pdf_document page_nums images = Inr images' \<Longrightarrow> images' = images"
  by (induction page_nums arbitrary: images)
    (auto simp: page_without_images_def split: sum.splits)

lemma images_try_none:
  "no_embedded_images lib stream \<Longrightarrow> images_try lib stream = Inr images \<Longrightarrow> images = []"
  by (auto simp: no_embedded_images_def images_try_def split: sum.splits
      dest: images_pages_none)



text \<open>
  Claim C5. For a PDF none of whose pages lists an embedded image,
  \<^verbatim>\<open>extract_images_from_pdf\<close> returns the empty list, and the Images tab shows
  "No images found in the PDF." and neither the column layout nor any image.
\<close>

theorem no_images_message:
  fixes lib :: "'img libraries"
  shows "(no_embedded_images lib (fst (file_read pdf_file)) \<longrightarrow>
            returned (extract_images_from_pdf lib pdf_file) = Inr [])
       \<and> (no_embedded_images lib (content uploaded) \<longrightarrow>
            St_info ''No images found in the PDF.'' \<in> set (effects (tab2 lib uploaded)) \<and>
            (\<forall>ev \<in> set (effects (tab2 lib uploaded)). \<not> is_image_widget ev))"
  by (auto simp: extract_images_unfold tab2_effects is_image_widget_def
      split: sum.splits dest: images_try_none)



lemma plain_file_no_images: "no_embedded_images sample_lib (content plain_file)"
  and plain_file_no_tables: "no_detected_tables sample_lib (content plain_file)"
  and plain_file_read: "fst (file_read plain_file) = content plain_file"
  by (simp_all add: no_embedded_images_def no_detected_tables_def sample_lib_def plain_file_def
      plain_doc_def page_without_images_def page_without_tables_def file_read_def)

theorem no_images_message_witness:
  "no_embedded_images sample_lib (fst (file_read plain_file))
   \<and> no_embedded_images sample_lib (content plain_file)
   \<and> returned (extract_images_from_pdf sample_lib plain_file) = Inr []
   \<and> St_info ''No images found in the PDF.'' \<in> set (effects (tab2 sample_lib plain_file))
   \<and> filter is_image_widget (effects (tab2 sample_lib plain_file)) = []"
  using no_images_message [of sample_lib plain_file plain_file]
    plain_file_no_images plain_file_read
  by (simp add: filter_empty_conv)

subsection \<open>Tables\<close>

text \<open>The cell loops return the grid of the table, row by row, when no cell read raises.\<close>

lemma length_py_range [simp]: "length (py_range n) = nat n"
  by (simp add: py_range_def)

lemma set_py_range: "set (py_range n) = {k. 0 \<le> k \<and> k < n}"
  by (auto simp: py_range_def)

lemma nth_py_range: "k < nat n \<Longrightarrow> py_range n ! k = int k"
  by (simp add: py_range_def)

lemma py_range_int: "py_range (int n) = map int [0..<n]"
  by (rule nth_equalityI) (simp_all add: nth_py_range)

lemma row_cells_acc:
  "row_cells table row cs row_data = Inr out \<Longrightarrow>
   \<exists>ys. out = row_data @ ys \<and> map Inr ys = map (cell_text table row) cs"
proof (induction cs arbitrary: row_data)
  case Nil
  then show ?case by simp
next
  case (Cons c cs)
  then obtain t where t: "cell_text table row c = Inr t"
    and r: "row_cells table row cs (row_data @ [t]) = Inr out"
    by (auto split: sum.splits)
  from Cons.IH [OF r] obtain ys where "out = (row_data @ [t]) @ ys"
    and "map Inr ys = map (cell_text table row) cs" by blast
  with t have "out = row_data @ (t # ys) \<and> map Inr (t # ys) = map (cell_text table row) (c # cs)"
    by simp
  then show ?case by blast
qed

lemma table_rows_acc:
  "table_rows table rs rows_data = Inr out \<Longrightarrow>
   \<exists>yss. out = rows_data @ yss \<and>
     map (map Inr) yss = map (\<lambda>row. map (cell_text table row) (py_range (cols table))) rs"
proof (induction rs arbitrary: rows_data)
  case Nil
  then show ?case by simp
next
  case (Cons r rs)
  then obtain row_data where c: "row_cells table r (py_range (cols table)) [] = Inr row_data"
    and t: "table_rows table rs (rows_data @ [row_data]) = Inr out"
    by (auto split: sum.splits)
  from row_cells_acc [OF c]
  have m: "map Inr row_data = map (cell_text table r) (py_range (cols table))" by simp
  from Cons.IH [OF t] obtain yss where "out = (rows_data @ [row_data]) @ yss"
    and "map (map Inr) yss = map (\<lambda>row. map (cell_text table row) (py_range (cols table))) rs"
    by blast
  with m have "out = rows_data @ (row_data # yss) \<and>
     map (map Inr) (row_data # yss) =
       map (\<lambda>row. map (cell_text table row) (py_range (cols table))) (r # rs)"
    by simp
  then show ?case by blast
qed

lemma table_rows_grid:
  "table_rows table (py_range (rows table)) [] = Inr rows_data \<Longrightarrow>
   map (map Inr) rows_data = grid table"
  by (drule table_rows_acc) (auto simp: grid_def)

lemma table_rows_length:
  "table_rows table (py_range (rows table)) [] = Inr rows_data \<Longrightarrow>
   length rows_data = nat (rows table)"
  by (drule table_rows_grid) (metis grid_def length_map length_py_range)

text \<open>The script's header test and labels are those of the specification.\<close>

lemma truthy_cell_iff:
  "truthy_cell cell = (case cell of None \<Rightarrow> False | Some s \<Rightarrow> strip s \<noteq> [])"
  by (auto simp: truthy_cell_def strip_def split: option.splits)

lemma list_all_truthy: "list_all truthy_cell first_row = first_row_filled first_row"
  by (simp add: first_row_filled_def truthy_cell_iff [abs_def])

lemma generic_columns_numbered: "generic_columns first_row = numbered_columns (length first_row)"
proof -
  have "map (\<lambda>i. Some (''Column '' @ str_int (i + 1))) (map int [0..<n]) =
        map (\<lambda>k. Some (''Column '' @ str_int (int k))) [1..<Suc n]" for n
    by (induction n) (simp_all add: add.commute)
  then show ?thesis
    by (simp add: generic_columns_def numbered_columns_def py_range_int)
qed

lemma table_dataframe_header_rule: "table_dataframe rows_data = header_rule rows_data"
  by (simp add: table_dataframe_def header_rule_def list_all_truthy generic_columns_numbered
      pd_DataFrame_def split: list.splits)




lemma sample_blank_head_rows:
  "table_rows blank_head_table (py_range (rows blank_head_table)) [] =
     Inr [[Some ''x'', Some '' ''], [None, Some ''2'']]"
  by (simp add: blank_head_table_def)


text \<open>Where an entry of the returned list comes from.\<close>

lemma enumerate_py_mem:
  "(i, x) \<in> set (enumerate_py xs) \<Longrightarrow> 0 \<le> i \<and> i < int (length xs) \<and> x = xs ! nat i"
  by (auto simp: enumerate_py_def py_range_int in_set_zip)

lemma tables_of_page_mem:
  "tables_of_page page_num its found = Inr found' \<Longrightarrow> entry \<in> set found' \<Longrightarrow>
   entry \<in> set found \<or>
   (\<exists>i table rows_data df. (i, table) \<in> set its \<and>
      table_rows table (py_range (rows table)) [] = Inr rows_data \<and>
      table_dataframe rows_data = Some df \<and>
      entry = \<lparr>page = page_num + 1, table_number = i + 1, dataframe = df\<rparr>)"
proof (induction its arbitrary: found)
  case Nil
  then show ?case by simp
next
  case (Cons it its)
  obtain i table where it: "it = (i, table)" by (cases it)
  from Cons.prems(1) it obtain rows_data
    where rd: "table_rows table (py_range (rows table)) [] = Inr rows_data"
    by (auto split: sum.splits)
  show ?case
  proof (cases "table_dataframe rows_data")
    case None
    with Cons.prems(1) it rd have "tables_of_page page_num its found = Inr found'" by simp
    from Cons.IH [OF this Cons.prems(2)] show ?thesis by auto
  next
    case (Some df)
    let ?new = "\<lparr>page = page_num + 1, table_number = i + 1, dataframe = df\<rparr>"
    from Cons.prems(1) it rd Some
    have "tables_of_page page_num its (found @ [?new]) = Inr found'" by simp
    from Cons.IH [OF this Cons.prems(2)] it rd Some show ?thesis by auto
  qed
qed

lemma tables_pages_mem:
  "tables_pages pdf_document page_nums found = Inr found' \<Longrightarrow> entry \<in> set found' \<Longrightarrow>
   entry \<in> set found \<or>
   (\<exists>n pg tabs i table rows_data df. n \<in> set page_nums \<and>
      getitem pdf_document n = Inr pg \<and> find_tables pg = Inr tabs \<and>
      (i, table) \<in> set (enumerate_py (tables tabs)) \<and>
      table_rows table (py_range (rows table)) [] = Inr rows_data \<and>
      table_dataframe rows_data = Some df \<and>
      entry = \<lparr>page = n + 1, table_number = i + 1, dataframe = df\<rparr>)"
proof (induction page_nums arbitrary: found)
  case Nil
  then show ?case by simp
next
  case (Cons n ns)
  from Cons.prems(1) obtain pg tabs mid
    where pg: "getitem pdf_document n = Inr pg" and tabs: "find_tables pg = Inr tabs"
      and mid: "tables_of_page n (enumerate_py (tables tabs)) found = Inr mid"
      and rest: "tables_pages pdf_document ns mid = Inr found'"
    by (auto split: sum.splits)
  from Cons.IH [OF rest Cons.prems(2)]
  consider "entry \<in> set mid"
    | "\<exists>n pg tabs i table rows_data df. n \<in> set ns \<and>
      getitem pdf_document n = Inr pg \<and> find_tables pg = Inr tabs \<and>
      (i, table) \<in> set (enumerate_py (tables tabs)) \<and>
      table_rows table (py_range (rows table)) [] = Inr rows_data \<and>
      table_dataframe rows_data = Some df \<and>
      entry = \<lparr>page = n + 1, table_number = i + 1, dataframe = df\<rparr>"
    by blast
  then show ?case
  proof cases
    case 1
    from tables_of_page_mem [OF mid 1] pg tabs show ?thesis
      by (metis list.set_intros(1))
  next
    case 2
    then show ?thesis by (metis list.set_intros(2))
  qed
qed

text \<open>
  Claim C8. Every element of the list \<^verbatim>\<open>extract_tables_from_pdf_pymupdf\<close> returns records
  a page number, a table number and a dataframe: the page number is the 1-based position of
  a page of the document, the table number the 1-based position of a table detected on that
  page, and the dataframe is built by the header rule from the cell grid of that table.
\<close>

theorem table_entries_are_triples:
  fixes lib :: "'img libraries"
  assumes "returned (extract_tables_from_pdf_pymupdf lib pdf_file) = Inr found"
    and "entry \<in> set found"
  shows "\<exists>pdf_document pg tabs rows_data.
           fitz_open lib (fst (file_read pdf_file)) = Inr pdf_document
         \<and> 1 \<le> page entry \<and> page entry \<le> page_count pdf_document
         \<and> getitem pdf_document (page entry - 1) = Inr pg
         \<and> find_tables pg = Inr tabs
         \<and> 1 \<le> table_number entry \<and> table_number entry \<le> int (length (tables tabs))
         \<and> map (map Inr) rows_data = grid (tables tabs ! nat (table_number entry - 1))
         \<and> 0 < rows (tables tabs ! nat (table_number entry - 1))
         \<and> header_rule rows_data = Some (dataframe entry)"
proof -
  from assms obtain pdf_document
    where d: "fitz_open lib (fst (file_read pdf_file)) = Inr pdf_document"
      and t: "tables_pages pdf_document (py_range (page_count pdf_document)) [] = Inr found"
    by (auto simp: extract_tables_unfold tables_try_def split: sum.splits)
  from tables_pages_mem [OF t assms(2)] obtain n pg tabs i table rows_data df
    where n: "n \<in> set (py_range (page_count pdf_document))"
      and pg: "getitem pdf_document n = Inr pg" and tabs: "find_tables pg = Inr tabs"
      and i: "(i, table) \<in> set (enumerate_py (tables tabs))"
      and rd: "table_rows table (py_range (rows table)) [] = Inr rows_data"
      and df: "table_dataframe rows_data = Some df"
      and e: "entry = \<lparr>page = n + 1, table_number = i + 1, dataframe = df\<rparr>"
    by auto
  from n have n': "0 \<le> n \<and> n < page_count pdf_document" by (simp add: set_py_range)
  from enumerate_py_mem [OF i]
  have i': "0 \<le> i \<and> i < int (length (tables tabs)) \<and> table = tables tabs ! nat i" .
  from df have "rows_data \<noteq> []" by (auto simp: table_dataframe_def)
  with table_rows_length [OF rd] have pos: "0 < rows table"
    by (cases "0 < rows table") simp_all
  have "map (map Inr) rows_data = grid table" using rd by (rule table_rows_grid)
  moreover have "header_rule rows_data = Some df"
    using df by (simp add: table_dataframe_header_rule)
  ultimately show ?thesis using d n' pg tabs i' pos e by auto
qed

lemma sample_tables:
  "returned (extract_tables_from_pdf_pymupdf sample_lib sample_file) =
     Inr [\<lparr>page = 1, table_number = 1,
           dataframe = \<lparr>columns = [Some ''a'', Some ''b''], data = [[Some ''1'', Some ''2'']]\<rparr>\<rparr>,
          \<lparr>page = 1, table_number = 3,
           dataframe = \<lparr>columns = [Some ''Column 1'', Some ''Column 2''],
                        data = [[Some ''x'', Some '' ''], [None, Some ''2'']]\<rparr>\<rparr>]"
  by code_simp

theorem table_entries_are_triples_witness:
  "returned (extract_tables_from_pdf_pymupdf sample_lib sample_file) =
     Inr [\<lparr>page = 1, table_number = 1,
           dataframe = \<lparr>columns = [Some ''a'', Some ''b''], data = [[Some ''1'', Some ''2'']]\<rparr>\<rparr>,
          \<lparr>page = 1, table_number = 3,
           dataframe = \<lparr>columns = [Some ''Column 1'', Some ''Column 2''],
                        data = [[Some ''x'', Some '' ''], [None, Some ''2'']]\<rparr>\<rparr>]
   \<and> (\<exists>pdf_document pg tabs rows_data.
         fitz_open sample_lib (fst (file_read sample_file)) = Inr pdf_document
       \<and> (1::int) \<le> page_count pdf_document
       \<and> getitem pdf_document 0 = Inr pg
       \<and> find_tables pg = Inr tabs
       \<and> 3 \<le> int (length (tables tabs))
       \<and> map (map Inr) rows_data = grid (tables tabs ! 2)
       \<and> 0 < rows (tables tabs ! 2)
       \<and> header_rule rows_data =
           Some \<lparr>columns = [Some ''Column 1'', Some ''Column 2''],
                 data = [[Some ''x'', Some '' ''], [None, Some ''2'']]\<rparr>)"
proof -
  let ?e = "\<lparr>page = 1, table_number = 3,
           dataframe = \<lparr>columns = [Some ''Column 1'', Some ''Column 2''],
                        data = [[Some ''x'', Some '' ''], [None, Some ''2'']]\<rparr>\<rparr>"
  from table_entries_are_triples [OF sample_tables, of ?e]
  show ?thesis using sample_tables by simp
qed

subsection \<open>Images\<close>

text \<open>Both loops append to the list built so far, one pair per listed image.\<close>

lemma images_of_page_acc:
  "images_of_page lib pdf_document page_num its images = Inr out \<Longrightarrow>
   \<exists>ys. out = images @ ys \<and>
     map fst ys = map (\<lambda>(k, img). image_caption (page_num + 1) (k + 1)) its \<and>
     map (\<lambda>y. Inr (snd y)) ys = map (\<lambda>(k, img). decode_image lib pdf_document img) its"
proof (induction its arbitrary: images)
  case Nil
  then show ?case by simp
next
  case (Cons it its)
  obtain k img where it: "it = (k, img)" by (cases it)
  from Cons.prems it obtain pil_image
    where d: "decode_image lib pdf_document img = Inr pil_image"
      and r: "images_of_page lib pdf_document page_num its
                (images @ [(image_caption (page_num + 1) (k + 1), pil_image)]) = Inr out"
    by (auto simp: decode_image_def image_caption_def split: sum.splits)
  from Cons.IH [OF r] obtain ys
    where "out = (images @ [(image_caption (page_num + 1) (k + 1), pil_image)]) @ ys"
      and "map fst ys = map (\<lambda>(k, img). image_caption (page_num + 1) (k + 1)) its"
      and "map (\<lambda>y. Inr (snd y)) ys = map (\<lambda>(k, img). decode_image lib pdf_document img) its"
    by blast
  with d it show ?case
    by (intro exI [of _ "(image_caption (page_num + 1) (k + 1), pil_image) # ys"]) simp
qed

lemma images_pages_acc:
  "images_pages lib pdf_document page_nums images = Inr out \<Longrightarrow>
   \<exists>ys. out = images @ ys \<and>
     map fst ys =
       map (\<lambda>(p, k, img). image_caption p k)
           (concat (map (numbered_images pdf_document) page_nums)) \<and>
     map (\<lambda>y. Inr (snd y)) ys =
       map (\<lambda>(p, k, img). decode_image lib pdf_document img)
           (concat (map (numbered_images pdf_document) page_nums))"
proof (induction page_nums arbitrary: images)
  case Nil
  then show ?case by simp
next
  case (Cons n ns)
  from Cons.prems obtain pg image_list mid
    where pg: "getitem pdf_document n = Inr pg" and il: "get_images pg = Inr image_list"
      and m: "images_of_page lib pdf_document n (enumerate_py image_list) images = Inr mid"
      and r: "images_pages lib pdf_document ns mid = Inr out"
    by (auto split: sum.splits)
  from pg il have pil: "page_image_list pdf_document n = image_list"
    by (simp add: page_image_list_def)
  from images_of_page_acc [OF m] obtain ys
    where ys: "mid = images @ ys"
      "map fst ys = map (\<lambda>(k, img). image_caption (n + 1) (k + 1)) (enumerate_py image_list)"
      "map (\<lambda>y. Inr (snd y)) ys =
         map (\<lambda>(k, img). decode_image lib pdf_document img) (enumerate_py image_list)"
    by blast
  from Cons.IH [OF r] obtain zs
    where zs: "out = mid @ zs"
      "map fst zs =
         map (\<lambda>(p, k, img). image_caption p k)
             (concat (map (numbered_images pdf_document) ns))"
      "map (\<lambda>y. Inr (snd y)) zs =
         map (\<lambda>(p, k, img). decode_image lib pdf_document img)
             (concat (map (numbered_images pdf_document) ns))"
    by blast
  have "out = images @ (ys @ zs)" using ys(1) zs(1) by simp
  moreover have "map fst (ys @ zs) =
       map (\<lambda>(p, k, img). image_caption p k)
           (concat (map (numbered_images pdf_document) (n # ns)))"
    using ys(2) zs(2) pil by (simp add: numbered_images_def case_prod_beta comp_def)
  moreover have "map (\<lambda>y. Inr (snd y)) (ys @ zs) =
       map (\<lambda>(p, k, img). decode_image lib pdf_document img)
           (concat (map (numbered_images pdf_document) (n # ns)))"
    using ys(3) zs(3) pil by (simp add: numbered_images_def case_prod_beta comp_def)
  ultimately show ?case by blast
qed

text \<open>The document order is ascending: by page, then by position on the page.\<close>

lemma sorted_wrt_zip_fst:
  "sorted_wrt (<) xs \<Longrightarrow> sorted_wrt (\<lambda>a b. fst a < fst b) (zip xs ys)"
proof (induction xs arbitrary: ys)
  case Nil
  then show ?case by simp
next
  case (Cons x xs)
  show ?case
  proof (cases ys)
    case Nil
    then show ?thesis by simp
  next
    case (Cons y ys')
    with Cons.prems Cons.IH [of ys'] show ?thesis
      by (auto dest!: set_zip_leftD)
  qed
qed

lemma sorted_py_range: "sorted_wrt (<) (py_range n)"
  by (simp add: py_range_def sorted_wrt_iff_nth_less)

lemma numbered_images_sorted: "sorted_wrt earlier (numbered_images pdf_document p)"
proof -
  have "sorted_wrt (\<lambda>a b. fst a < fst b) (enumerate_py (page_image_list pdf_document p))"
    unfolding enumerate_py_def by (rule sorted_wrt_zip_fst) (rule sorted_py_range)
  then have "sorted_wrt (\<lambda>a b. fst a + 1 \<le> fst b)
      (enumerate_py (page_image_list pdf_document p))"
    by (rule sorted_wrt_mono_rel [rotated]) simp
  then show ?thesis
    by (simp add: numbered_images_def sorted_wrt_map earlier_def case_prod_beta)
qed

lemma numbered_images_page: "x \<in> set (numbered_images pdf_document p) \<Longrightarrow> fst x = p + 1"
  by (auto simp: numbered_images_def)

lemma pages_sorted:
  "sorted_wrt (<) ns \<Longrightarrow>
   sorted_wrt earlier (concat (map (numbered_images pdf_document) ns))"
proof (induction ns)
  case Nil
  then show ?case by simp
next
  case (Cons n ns)
  have "earlier x y" if x: "x \<in> set (numbered_images pdf_document n)"
    and y: "y \<in> set (concat (map (numbered_images pdf_document) ns))" for x y
  proof -
    from y obtain m where m: "m \<in> set ns" and "y \<in> set (numbered_images pdf_document m)"
      by auto
    then have "fst y = m + 1" by (simp add: numbered_images_page)
    moreover from x have "fst x = n + 1" by (simp add: numbered_images_page)
    moreover from Cons.prems m have "n < m" by simp
    ultimately show ?thesis by (simp add: earlier_def)
  qed
  with Cons show ?case
    by (simp add: sorted_wrt_append numbered_images_sorted)
qed

lemma document_order_sorted: "sorted_wrt earlier (document_order pdf_document)"
  unfolding document_order_def by (rule pages_sorted) (rule sorted_py_range)

text \<open>
  Claim C10. When the document opens and no call raises, \<^verbatim>\<open>extract_images_from_pdf\<close>
  returns one pair per listed image, in document order (ascending page, then ascending
  position on the page): the caption is "Page p, Image k" with the 1-based page number
  \<open>p\<close> and the 1-based position \<open>k\<close> on the page, and the image is the one decoded
  for that entry.
\<close>

theorem images_in_document_order:
  fixes lib :: "'img libraries"
  assumes "fitz_open lib (fst (file_read pdf_file)) = Inr pdf_document"
    and "images_try lib (fst (file_read pdf_file)) = Inr images"
  shows "returned (extract_images_from_pdf lib pdf_file) = Inr images
       \<and> map fst images = map (\<lambda>(p, k, img). image_caption p k) (document_order pdf_document)
       \<and> map (\<lambda>y. Inr (snd y)) images =
           map (\<lambda>(p, k, img). decode_image lib pdf_document img) (document_order pdf_document)
       \<and> sorted_wrt earlier (document_order pdf_document)
       \<and> (\<forall>x \<in> set (document_order pdf_document). 1 \<le> fst x \<and> 1 \<le> fst (snd x))"
proof -
  from assms have "images_pages lib pdf_document (py_range (page_count pdf_document)) [] = Inr images"
    by (simp add: images_try_def)
  from images_pages_acc [OF this]
  have "map fst images = map (\<lambda>(p, k, img). image_caption p k) (document_order pdf_document)"
    and "map (\<lambda>y. Inr (snd y)) images =
           map (\<lambda>(p, k, img). decode_image lib pdf_document img) (document_order pdf_document)"
    by (auto simp: document_order_def)
  moreover have "\<forall>x \<in> set (document_order pdf_document). 1 \<le> fst x \<and> 1 \<le> fst (snd x)"
    by (auto simp: document_order_def numbered_images_def set_py_range dest!: enumerate_py_mem)
  ultimately show ?thesis
    using assms(2) by (simp add: extract_images_unfold document_order_sorted)
qed


lemma sample_open: "fitz_open sample_lib (fst (file_read sample_file)) = Inr sample_doc"
  by (simp add: sample_lib_def sample_file_def file_read_def)

lemma sample_images:
  "images_try sample_lib (fst (file_read sample_file)) =
     Inr [(''Page 1, Image 1'', [7]), (''Page 1, Image 2'', [8]), (''Page 2, Image 1'', [9])]"
  by code_simp

lemma sample_document_order:
  "document_order sample_doc = [(1, 1, [7, 0]), (1, 2, [8, 0]), (2, 1, [9])]"
  by code_simp

theorem images_in_document_order_witness:
  "fitz_open sample_lib (fst (file_read sample_file)) = Inr sample_doc
   \<and> returned (extract_images_from_pdf sample_lib sample_file) =
       Inr [(''Page 1, Image 1'', [7]), (''Page 1, Image 2'', [8]), (''Page 2, Image 1'', [9])]
   \<and> [''Page 1, Image 1'', ''Page 1, Image 2'', ''Page 2, Image 1''] =
       map (\<lambda>(p, k, img). image_caption p k) [(1, 1, [7, 0]), (1, 2, [8, 0]), (2, 1, [9])]
   \<and> sorted_wrt earlier [(1 :: int, 1 :: int, [7, 0 :: int]), (1, 2, [8, 0]), (2, 1, [9])]"
  using images_in_document_order [OF sample_open sample_images] sample_document_order
    sample_open
  by simp

subsection \<open>The CSV downloads\<close>

lemma displayed_tables_simps [simp]:
  "displayed_tables [] = []"
  "displayed_tables (St_dataframe df # evs) = df # displayed_tables evs"
  "displayed_tables (St_subheader h # evs) = displayed_tables evs"
  "displayed_tables (St_download_button l d f m # evs) = displayed_tables evs"
  "displayed_tables (St_header h # evs) = displayed_tables evs"
  "displayed_tables (File_seek n # evs) = displayed_tables evs"
  "displayed_tables (File_read b # evs) = displayed_tables evs"
  "displayed_tables (St_error h # evs) = displayed_tables evs"
  "displayed_tables (St_info h # evs) = displayed_tables evs"
  "displayed_tables (St_write h # evs) = displayed_tables evs"
  by (simp_all add: displayed_tables_def)

lemma csv_downloads_simps [simp]:
  "csv_downloads [] = []"
  "csv_downloads (St_dataframe df # evs) = csv_downloads evs"
  "csv_downloads (St_subheader h # evs) = csv_downloads evs"
  "csv_downloads (St_download_button l (Bytes b) f (Some ''text/csv'') # evs) =
     b # csv_downloads evs"
  "csv_downloads (St_header h # evs) = csv_downloads evs"
  "csv_downloads (File_seek n # evs) = csv_downloads evs"
  "csv_downloads (File_read b # evs) = csv_downloads evs"
  "csv_downloads (St_error h # evs) = csv_downloads evs"
  "csv_downloads (St_info h # evs) = csv_downloads evs"
  "csv_downloads (St_write h # evs) = csv_downloads evs"
  by (simp_all add: csv_downloads_def csv_payload_def)

lemma show_tables_pairs:
  "list_all2 (\<lambda>b df. \<exists>csv. to_csv lib False df = Inr csv \<and> b = encode_utf8 csv)
     (csv_downloads (snd (show_tables lib file_name found)))
     (take (length (csv_downloads (snd (show_tables lib file_name found))))
           (displayed_tables (snd (show_tables lib file_name found))))"
  by (induction found) (auto simp: Let_def split: sum.splits prod.splits)

lemma show_tables_returned:
  "fst (show_tables lib file_name found) = Inr () \<Longrightarrow>
   displayed_tables (snd (show_tables lib file_name found)) = map dataframe found \<and>
   length (csv_downloads (snd (show_tables lib file_name found))) = length found"
  by (induction found) (auto simp: Let_def split: sum.splits prod.splits)

lemma tab3_returned:
  "returned (tab3 lib uploaded) =
     (case tables_try lib (content uploaded) of
        Inl e \<Rightarrow> Inr ()
      | Inr found \<Rightarrow>
          if found = [] then Inr () else fst (show_tables lib (name uploaded) found))"
  by (simp add: tab3_def tables_after_seek split: sum.splits prod.splits)

lemma sample_tab3_returned: "returned (tab3 sample_lib sample_file) = Inr ()"
  by code_simp

lemma sample_displayed:
  "displayed_tables (effects (tab3 sample_lib sample_file)) =
     [\<lparr>columns = [Some ''a'', Some ''b''], data = [[Some ''1'', Some ''2'']]\<rparr>,
      \<lparr>columns = [Some ''Column 1'', Some ''Column 2''],
       data = [[Some ''x'', Some '' ''], [None, Some ''2'']]\<rparr>]"
  by code_simp

subsection \<open>The whole page\<close>

text \<open>
  Inside \<^verbatim>\<open>get_cohere_summary\<close> the request \<^verbatim>\<open>co.summarize\<close> follows the construction
  of the client: it is sent when, in addition, \<^verbatim>\<open>cohere.Client\<close> returned.
\<close>

lemma summarize_request_sent_iff:
  fixes lib :: "'img libraries"
  shows "(\<exists>r. Co_summarize r \<in> set (effects (tab4 lib cohere_api_key uploaded))) \<longleftrightarrow>
           cohere_api_key \<noteq> [] \<and>
           (\<exists>t. text_try lib (content uploaded) = Inr t \<and> t \<noteq> []) \<and>
           (\<exists>co. cohere_Client lib cohere_api_key = Inr co)"
  by (auto simp: tab4_effects get_cohere_summary_unfold summary_try_def
      split: sum.splits option.splits if_splits)

text \<open>
  Before an upload \<^verbatim>\<open>main\<close> shows the title, the sidebar and the uploader only. With an
  upload the Text tab always returns, so the Images tab is always rendered.
\<close>

lemma main_without_upload: "main lib cohere_api_key None = (Inr (), prologue)"
  by (simp add: main_def)

lemma main_shows_images_tab:
  "set (effects (tab2 lib (fst (snd (tab1 lib uploaded))))) \<subseteq>
     set (snd (main lib cohere_api_key (Some uploaded)))"
  by (auto simp: main_effects then_block_effects tab1_returned split: sum.splits)

text \<open>
  The Images, Tables and Summary tabs seek to 0 first, so what they show does not depend on
  the cursor they find; \<^verbatim>\<open>main\<close> shows the tabs in order and stops at the first one an
  exception leaves.
\<close>

lemma tab2_returned:
  "returned (tab2 lib uploaded) =
     (case images_try lib (content uploaded) of
        Inl e \<Rightarrow> Inr ()
      | Inr images \<Rightarrow>
          if images = [] then Inr ()
          else fst (show_images lib (name uploaded) (enumerate_py images)))"
  by (simp add: tab2_def images_after_seek split: sum.splits prod.splits)

lemma tabs_ignore_cursor:
  "effects (tab2 lib (uploaded\<lparr>pos := n\<rparr>)) = effects (tab2 lib uploaded)"
  "returned (tab2 lib (uploaded\<lparr>pos := n\<rparr>)) = returned (tab2 lib uploaded)"
  "effects (tab3 lib (uploaded\<lparr>pos := n\<rparr>)) = effects (tab3 lib uploaded)"
  "returned (tab3 lib (uploaded\<lparr>pos := n\<rparr>)) = returned (tab3 lib uploaded)"
  "effects (tab4 lib k (uploaded\<lparr>pos := n\<rparr>)) = effects (tab4 lib k uploaded)"
  by (simp_all add: tab2_effects tab2_returned tab3_effects tab3_returned tab4_effects
      split: sum.splits option.splits)

lemma main_effects_tabs:
  "snd (main lib cohere_api_key (Some uploaded)) =
     prologue @
     [St_write_details (name uploaded) (ftype uploaded) (length (content uploaded)),
      St_tabs [''Text'', ''Images'', ''Tables'', ''Summary'']] @
     effects (tab1 lib uploaded) @ effects (tab2 lib uploaded) @
     (case returned (tab2 lib uploaded) of
        Inl e \<Rightarrow> []
      | Inr u \<Rightarrow>
          effects (tab3 lib uploaded) @
          (case returned (tab3 lib uploaded) of
             Inl e \<Rightarrow> []
           | Inr u \<Rightarrow> effects (tab4 lib cohere_api_key uploaded)))"
  by (simp add: main_effects then_block_effects tab1_returned tab1_file tab2_file tab3_file
      tabs_ignore_cursor split: sum.splits)

text \<open>Only the Summary tab calls the Cohere client; only the Tables tab shows a dataframe.\<close>

lemma show_images_quiet:
  "Cohere_Client k \<notin> set (snd (show_images lib file_name xs))"
  "Co_summarize r \<notin> set (snd (show_images lib file_name xs))"
  "St_dataframe df \<notin> set (snd (show_images lib file_name xs))"
  "St_info h \<notin> set (snd (show_images lib file_name xs))"
  by (induction xs; auto split: sum.splits prod.splits)+

lemma show_tables_quiet:
  "Cohere_Client k \<notin> set (snd (show_tables lib file_name xs))"
  "Co_summarize r \<notin> set (snd (show_tables lib file_name xs))"
  "St_info h \<notin> set (snd (show_tables lib file_name xs))"
  by (induction xs; auto simp: Let_def split: sum.splits prod.splits)+

lemma early_tabs_quiet:
  "Cohere_Client k \<notin> set (prologue :: 'img event list)"
  "Co_summarize r \<notin> set (prologue :: 'img event list)"
  "Cohere_Client k \<notin> set (effects (tab1 lib uploaded))"
  "Co_summarize r \<notin> set (effects (tab1 lib uploaded))"
  "Cohere_Client k \<notin> set (effects (tab2 lib uploaded))"
  "Co_summarize r \<notin> set (effects (tab2 lib uploaded))"
  "Cohere_Client k \<notin> set (effects (tab3 lib uploaded))"
  "Co_summarize r \<notin> set (effects (tab3 lib uploaded))"
  by (auto simp: prologue_def tab1_effects tab2_effects tab3_effects show_images_quiet
      show_tables_quiet split: sum.splits if_splits)

lemma main_cohere_events:
  "Co_summarize r \<in> set (snd (main lib cohere_api_key (Some uploaded))) \<longleftrightarrow>
     reaches_summary_tab lib uploaded \<and>
     Co_summarize r \<in> set (effects (tab4 lib cohere_api_key uploaded))"
  "Cohere_Client k \<in> set (snd (main lib cohere_api_key (Some uploaded))) \<longleftrightarrow>
     reaches_summary_tab lib uploaded \<and>
     Cohere_Client k \<in> set (effects (tab4 lib cohere_api_key uploaded))"
  by (auto simp: main_effects_tabs early_tabs_quiet reaches_summary_tab_def split: sum.splits)

lemma is_summarize_request_iff: "is_summarize_request ev \<longleftrightarrow> (\<exists>r. ev = Co_summarize r)"
  by (cases ev) (simp_all add: is_summarize_request_def)

lemma text_pass_after_seek:
  "(\<exists>t. returned (extract_text_from_pdf lib (file_seek uploaded 0)) = Inr (Some t) \<and> t \<noteq> [])
     \<longleftrightarrow> (\<exists>t. text_try lib (content uploaded) = Inr t \<and> t \<noteq> [])"
  by (auto simp: text_after_seek split: sum.splits)

text \<open>
  Claim C3, as the code has it, on a run of \<^verbatim>\<open>main\<close> with an uploaded file. The request
  \<^verbatim>\<open>co.summarize\<close> is sent only if the key is not empty and the Summary tab's text
  extraction returned a non-empty text. On a run that reaches the Summary tab it is sent if
  and only if, in addition, \<^verbatim>\<open>cohere.Client\<close> returned for the key. With no key the run
  makes no call into the Cohere client, neither the construction nor the request, and when
  it reaches the Summary tab it shows the message asking for a key.
\<close>

theorem summarize_request_conditions:
  fixes lib :: "'img libraries"
  shows "((\<exists>ev \<in> set (snd (main lib cohere_api_key (Some uploaded))). is_summarize_request ev)
            \<longrightarrow> cohere_api_key \<noteq> [] \<and>
                (\<exists>t. returned (extract_text_from_pdf lib (file_seek uploaded 0)) = Inr (Some t)
                     \<and> t \<noteq> []))
       \<and> (reaches_summary_tab lib uploaded \<longrightarrow>
            ((\<exists>ev \<in> set (snd (main lib cohere_api_key (Some uploaded))). is_summarize_request ev)
               \<longleftrightarrow> cohere_api_key \<noteq> [] \<and>
                   (\<exists>t. returned (extract_text_from_pdf lib (file_seek uploaded 0)) =
                          Inr (Some t) \<and> t \<noteq> []) \<and>
                   (\<exists>co. cohere_Client lib cohere_api_key = Inr co)))
       \<and> (cohere_api_key = [] \<longrightarrow>
            (\<forall>ev \<in> set (snd (main lib cohere_api_key (Some uploaded))).
               \<not> is_summarize_request ev \<and> (\<forall>k. ev \<noteq> Cohere_Client k)))
       \<and> (cohere_api_key = [] \<and> reaches_summary_tab lib uploaded \<longrightarrow>
            St_info ''Enter a Cohere API key in the sidebar to generate a summary.''
              \<in> set (snd (main lib cohere_api_key (Some uploaded))))"
proof -
  let ?evs = "snd (main lib cohere_api_key (Some uploaded))"
  have req: "(\<exists>ev \<in> set ?evs. is_summarize_request ev) \<longleftrightarrow>
      reaches_summary_tab lib uploaded \<and> cohere_api_key \<noteq> [] \<and>
      (\<exists>t. text_try lib (content uploaded) = Inr t \<and> t \<noteq> []) \<and>
      (\<exists>co. cohere_Client lib cohere_api_key = Inr co)"
  proof -
    have "(\<exists>ev \<in> set ?evs. is_summarize_request ev) \<longleftrightarrow> (\<exists>r. Co_summarize r \<in> set ?evs)"
      by (auto simp: is_summarize_request_iff)
    also have "\<dots> \<longleftrightarrow> reaches_summary_tab lib uploaded \<and>
        (\<exists>r. Co_summarize r \<in> set (effects (tab4 lib cohere_api_key uploaded)))"
      by (auto simp: main_cohere_events)
    finally show ?thesis by (simp add: summarize_request_sent_iff)
  qed
  have quiet: "\<forall>ev \<in> set ?evs. \<not> is_summarize_request ev \<and> (\<forall>k. ev \<noteq> Cohere_Client k)"
    if k: "cohere_api_key = []"
  proof (intro ballI conjI allI)
    fix ev assume ev: "ev \<in> set ?evs"
    from req k show "\<not> is_summarize_request ev" using ev by blast
    fix c show "ev \<noteq> Cohere_Client c"
    proof
      assume "ev = Cohere_Client c"
      with ev have "Cohere_Client c \<in> set (effects (tab4 lib cohere_api_key uploaded))"
        by (simp add: main_cohere_events)
      with k show False by (simp add: tab4_effects)
    qed
  qed
  have prompt: "St_info ''Enter a Cohere API key in the sidebar to generate a summary.''
      \<in> set ?evs" if "cohere_api_key = [] \<and> reaches_summary_tab lib uploaded"
    using that
    by (simp add: main_effects_tabs reaches_summary_tab_def tab4_effects)
  from req quiet prompt show ?thesis
    by (simp add: text_pass_after_seek)
qed


text \<open>The sample run with a key sends the request; without a key it shows the prompt.\<close>

lemma sample_reaches_summary: "reaches_summary_tab sample_lib sample_file"
  by code_simp

lemma sample_text_pass:
  "returned (extract_text_from_pdf sample_lib (file_seek sample_file 0)) =
     Inr (Some ''Hello World'')"
  by code_simp

theorem summarize_request_conditions_witness:
  "reaches_summary_tab sample_lib sample_file
   \<and> returned (extract_text_from_pdf sample_lib (file_seek sample_file 0)) =
       Inr (Some ''Hello World'')
   \<and> cohere_Client sample_lib ''key'' = Inr (CohereClient ''key'')
   \<and> filter is_summarize_request (snd (main sample_lib ''key'' (Some sample_file))) \<noteq> []
   \<and> filter is_summarize_request (snd (main sample_lib [] (Some sample_file))) = []
   \<and> St_info ''Enter a Cohere API key in the sidebar to generate a summary.''
       \<in> set (snd (main sample_lib [] (Some sample_file)))"
proof -
  have c: "cohere_Client sample_lib ''key'' = Inr (CohereClient ''key'')"
    by (simp add: sample_lib_def)
  from summarize_request_conditions [of sample_lib "''key''" sample_file]
    sample_reaches_summary sample_text_pass c
  have sent: "filter is_summarize_request (snd (main sample_lib ''key'' (Some sample_file))) \<noteq> []"
    by (simp add: filter_empty_conv)
  from summarize_request_conditions [of sample_lib "[]" sample_file] sample_reaches_summary
  have "filter is_summarize_request (snd (main sample_lib [] (Some sample_file))) = []"
    and "St_info ''Enter a Cohere API key in the sidebar to generate a summary.''
       \<in> set (snd (main sample_lib [] (Some sample_file)))"
    by (simp_all add: filter_empty_conv)
  with sample_reaches_summary sample_text_pass c sent show ?thesis by simp
qed

text \<open>
  With a non-empty key and a non-empty text the request is still not sent when the client
  rejects the key, nor when \<^verbatim>\<open>img.save\<close> raises in the Images tab, which ends the run
  before the Summary tab; in that run with no key, and in a run with no upload, the message
  asking for a key is not shown.
\<close>

theorem summarize_request_not_sent_counterexample:
  "returned (extract_text_from_pdf sample_lib (file_seek sample_file 0)) =
     Inr (Some ''Hello World'')
   \<and> fst (main sample_lib ''bad'' (Some sample_file)) = Inr ()
   \<and> filter is_summarize_request (snd (main sample_lib ''bad'' (Some sample_file))) = []
   \<and> returned (extract_text_from_pdf cmyk_lib (file_seek sample_file 0)) =
       Inr (Some ''Hello World'')
   \<and> fst (main cmyk_lib ''key'' (Some sample_file)) =
       Inl (PyExc ''OSError'' ''cannot write mode CMYK as PNG'')
   \<and> filter is_summarize_request (snd (main cmyk_lib ''key'' (Some sample_file))) = []
   \<and> St_info ''Enter a Cohere API key in the sidebar to generate a summary.''
       \<notin> set (snd (main cmyk_lib [] (Some sample_file)))
   \<and> St_info ''Enter a Cohere API key in the sidebar to generate a summary.''
       \<notin> set (snd (main sample_lib [] None))"
  by code_simp


subsection \<open>The fallback message of the Tables tab\<close>







subsection \<open>What the CSV download is\<close>

text \<open>
  Claim C4, as the code has it. In the Tables tab every CSV download is generated from the
  dataframe displayed just before it: it is the UTF-8 encoding of what
  \<^verbatim>\<open>to_csv(index=False)\<close> returns for that dataframe. When the tab returns, every
  displayed table has its download, and the displayed tables are the dataframes of the
  extracted tables, in order. Nothing is claimed about reading the CSV back.
\<close>

theorem csv_download_is_displayed_dataframe:
  fixes lib :: "'img libraries"
  shows "list_all2 (\<lambda>b df. \<exists>csv. to_csv lib False df = Inr csv \<and> b = encode_utf8 csv)
           (csv_downloads (effects (tab3 lib uploaded)))
           (take (length (csv_downloads (effects (tab3 lib uploaded))))
                 (displayed_tables (effects (tab3 lib uploaded))))
       \<and> (returned (tab3 lib uploaded) = Inr () \<longrightarrow>
            length (csv_downloads (effects (tab3 lib uploaded))) =
            length (displayed_tables (effects (tab3 lib uploaded))) \<and>
            (\<exists>found. returned (extract_tables_from_pdf_pymupdf lib (file_seek uploaded 0)) = Inr found
               \<and> displayed_tables (effects (tab3 lib uploaded)) = map dataframe found))"
proof -
  let ?evs = "effects (tab3 lib uploaded)"
  have "list_all2 (\<lambda>b df. \<exists>csv. to_csv lib False df = Inr csv \<and> b = encode_utf8 csv)
      (csv_downloads ?evs) (take (length (csv_downloads ?evs)) (displayed_tables ?evs))"
    using show_tables_pairs [of lib "name uploaded"]
    by (simp add: tab3_effects split: sum.splits)
  moreover have "returned (tab3 lib uploaded) = Inr () \<longrightarrow>
      length (csv_downloads ?evs) = length (displayed_tables ?evs) \<and>
      (\<exists>found. returned (extract_tables_from_pdf_pymupdf lib (file_seek uploaded 0)) = Inr found
         \<and> displayed_tables ?evs = map dataframe found)"
    using show_tables_returned [of lib "name uploaded"]
    by (auto simp: tab3_effects tab3_returned tables_after_seek split: sum.splits if_splits)
  ultimately show ?thesis by blast
qed

theorem csv_download_is_displayed_dataframe_witness:
  "returned (tab3 sample_lib sample_file) = Inr ()
   \<and> length (csv_downloads (effects (tab3 sample_lib sample_file))) = 2
   \<and> displayed_tables (effects (tab3 sample_lib sample_file)) =
       [\<lparr>columns = [Some ''a'', Some ''b''], data = [[Some ''1'', Some ''2'']]\<rparr>,
        \<lparr>columns = [Some ''Column 1'', Some ''Column 2''],
         data = [[Some ''x'', Some '' ''], [None, Some ''2'']]\<rparr>]"
  using csv_download_is_displayed_dataframe [of sample_lib sample_file]
    sample_tab3_returned sample_displayed
  by simp

text \<open>
  Reading back does not give the displayed table in general. A cell is a string or
  \<^verbatim>\<open>None\<close>; with a writer that writes \<^verbatim>\<open>None\<close> and the empty string as an empty field,
  two displayed tables that differ in such a cell have the same download, so no reader
  returns both, and the sample reader returns the first for the second.
\<close>

theorem csv_round_trip_counterexample:
  "returned (tab3 sample_lib twin_file) = Inr ()
   \<and> displayed_tables (effects (tab3 sample_lib twin_file)) =
       [\<lparr>columns = [Some ''Column 1'', Some ''Column 2''],
         data = [[Some ''x'', Some '' ''], [None, Some ''2'']]\<rparr>,
        \<lparr>columns = [Some ''Column 1'', Some ''Column 2''],
         data = [[Some ''x'', Some '' ''], [Some [], Some ''2'']]\<rparr>]
   \<and> displayed_tables (effects (tab3 sample_lib twin_file)) ! 0 \<noteq>
       displayed_tables (effects (tab3 sample_lib twin_file)) ! 1
   \<and> csv_downloads (effects (tab3 sample_lib twin_file)) ! 0 =
       csv_downloads (effects (tab3 sample_lib twin_file)) ! 1
   \<and> sample_read_csv (csv_downloads (effects (tab3 sample_lib twin_file)) ! 1) \<noteq>
       Some (displayed_tables (effects (tab3 sample_lib twin_file)) ! 1)"
  by code_simp

end
